theory Spec2Isabelle
  imports Complex_Main
begin

section \<open>Change persistence (backend/src/db.ts)\<close>

text \<open>
  The Postgres tables are lists of rows in insertion order. \<open>NOW()\<close> is the argument
  \<open>now\<close> (milliseconds). Nullable columns are \<open>string option\<close>. Queries are taken to
  succeed: the only write of \<open>insertChange\<close> is its last statement, so a failing query
  leaves the tables as they were.

  A request reaches \<open>insertChange\<close> from the event handlers and, unvalidated, from the JSON
  body of POST /api/changes. An optional field (\<open>field?: string\<close>) is therefore one of
  three things: missing (\<open>undefined\<close>), an explicit \<open>null\<close>, or a string. Values of other
  JSON types are not modelled.
\<close>

datatype change_type = handle_change | profile_change | combined_change

datatype js_string = Undefined | Null | Str string

record SubmitChangeRequest =
  did :: string
  handle :: js_string
  old_handle :: js_string
  new_handle :: js_string
  old_display_name :: js_string
  new_display_name :: js_string
  old_avatar :: js_string
  new_avatar :: js_string

record ProfileChangeRow =
  pc_id :: nat
  pc_did :: string
  pc_handle :: "string option"
  pc_old_handle :: "string option"
  pc_new_handle :: "string option"
  pc_old_display_name :: "string option"
  pc_new_display_name :: "string option"
  pc_old_avatar :: "string option"
  pc_new_avatar :: "string option"
  pc_change_type :: change_type
  pc_changed_at :: int

record IgnoredUserRow =
  ig_did :: string
  ig_added_at :: int

record MonitoredFollowRow =
  user_did :: string
  follow_did :: string
  follow_handle :: "string option"
  rkey :: "string option"
  added_at :: int

text \<open>\<open>next_id\<close> is the SERIAL sequence behind \<open>profile_changes.id\<close>.\<close>

record database =
  profile_changes :: "ProfileChangeRow list"
  ignored_users :: "IgnoredUserRow list"
  monitored_follows :: "MonitoredFollowRow list"
  next_id :: nat

definition empty_db :: database where
  "empty_db = \<lparr>profile_changes = [], ignored_users = [], monitored_follows = [], next_id = 1\<rparr>"

text \<open>JavaScript truthiness of an optional string: present and not the empty string.\<close>

fun truthy :: "string option \<Rightarrow> bool" where
  "truthy None = False"
| "truthy (Some s) = (s \<noteq> [])"

text \<open>
  Truthiness of a request field, and the bound parameter \<open>field ?? null\<close>: \<open>undefined\<close> and
  \<open>null\<close> both become NULL.
\<close>

fun truthy_field :: "js_string \<Rightarrow> bool" where
  "truthy_field Undefined = False"
| "truthy_field Null = False"
| "truthy_field (Str s) = (s \<noteq> [])"

fun or_null :: "js_string \<Rightarrow> string option" where
  "or_null Undefined = None"
| "or_null Null = None"
| "or_null (Str s) = Some s"

text \<open>\<open>SELECT 1 FROM ignored_users WHERE did = $1 LIMIT 1\<close> has a row.\<close>

definition isIgnored :: "database \<Rightarrow> string \<Rightarrow> bool" where
  "isIgnored db d = (d \<in> set (map ig_did (ignored_users db)))"

text \<open>
  The WHERE clause of the duplicate check: \<open>IS NOT DISTINCT FROM\<close> is equality on
  \<open>string option\<close> (two NULLs match).
\<close>

definition duplicate_of :: "SubmitChangeRequest \<Rightarrow> ProfileChangeRow \<Rightarrow> bool" where
  "duplicate_of change r =
     (pc_did r = did change \<and>
      pc_old_display_name r = or_null (old_display_name change) \<and>
      pc_new_display_name r = or_null (new_display_name change) \<and>
      pc_old_avatar r = or_null (old_avatar change) \<and>
      pc_new_avatar r = or_null (new_avatar change) \<and>
      pc_old_handle r = or_null (old_handle change) \<and>
      pc_new_handle r = or_null (new_handle change))"

text \<open>\<open>LIMIT 1\<close> without an ORDER BY: the first matching row in table order.\<close>

definition duplicateCheck :: "database \<Rightarrow> SubmitChangeRequest \<Rightarrow> ProfileChangeRow option" where
  "duplicateCheck db change = find (duplicate_of change) (profile_changes db)"

definition isDuplicateChange ::
  "database \<Rightarrow> SubmitChangeRequest \<Rightarrow> (string option \<times> string option) option" where
  "isDuplicateChange db change =
     (case duplicateCheck db change of
        Some r \<Rightarrow> Some (pc_old_handle r, pc_new_handle r)
      | None \<Rightarrow> None)"

text \<open>
  \<open>getChangeType\<close>: the handles are tested for truthiness, the four profile fields with
  \<open>!== undefined\<close>, which an explicit \<open>null\<close> passes.
\<close>

definition getChangeType :: "SubmitChangeRequest \<Rightarrow> change_type" where
  "getChangeType change =
     (let hasHandleChange =
            (truthy_field (old_handle change) \<and> truthy_field (new_handle change));
          hasProfileChange =
            (old_display_name change \<noteq> Undefined \<or> new_display_name change \<noteq> Undefined \<or>
             old_avatar change \<noteq> Undefined \<or> new_avatar change \<noteq> Undefined)
      in if hasHandleChange \<and> hasProfileChange then combined_change
         else if hasHandleChange then handle_change
         else profile_change)"

definition new_row :: "database \<Rightarrow> int \<Rightarrow> SubmitChangeRequest \<Rightarrow> ProfileChangeRow" where
  "new_row db now change =
     \<lparr>pc_id = next_id db, pc_did = did change, pc_handle = or_null (handle change),
      pc_old_handle = or_null (old_handle change),
      pc_new_handle = or_null (new_handle change),
      pc_old_display_name = or_null (old_display_name change),
      pc_new_display_name = or_null (new_display_name change),
      pc_old_avatar = or_null (old_avatar change),
      pc_new_avatar = or_null (new_avatar change),
      pc_change_type = getChangeType change, pc_changed_at = now\<rparr>"

text \<open>
  \<open>insertChange\<close>: \<open>null\<close> (None) for an ignored DID; the stored row, read back by its id,
  for a duplicate; otherwise the row the INSERT returns.
\<close>

definition insertChange ::
  "SubmitChangeRequest \<Rightarrow> int \<Rightarrow> database \<Rightarrow> ProfileChangeRow option \<times> database" where
  "insertChange change now db =
     (if isIgnored db (did change) then (None, db)
      else case duplicateCheck db change of
             Some dup \<Rightarrow> (find (\<lambda>r. pc_id r = pc_id dup) (profile_changes db), db)
           | None \<Rightarrow>
               (Some (new_row db now change),
                db\<lparr>profile_changes := profile_changes db @ [new_row db now change],
                   next_id := next_id db + 1\<rparr>))"

text \<open>
  \<open>addIgnoredUser\<close>: one transaction; INSERT ... ON CONFLICT (did) DO NOTHING, then
  DELETE FROM profile_changes WHERE did = $1. Returns the number of deleted rows.
\<close>

definition addIgnoredUser :: "string \<Rightarrow> int \<Rightarrow> database \<Rightarrow> nat \<times> database" where
  "addIgnoredUser d now db =
     (length (filter (\<lambda>r. pc_did r = d) (profile_changes db)),
      db\<lparr>ignored_users :=
            (if isIgnored db d then ignored_users db
             else ignored_users db @ [\<lparr>ig_did = d, ig_added_at = now\<rparr>]),
         profile_changes := filter (\<lambda>r. pc_did r \<noteq> d) (profile_changes db)\<rparr>)"

definition removeIgnoredUser :: "string \<Rightarrow> database \<Rightarrow> database" where
  "removeIgnoredUser d db = db\<lparr>ignored_users := filter (\<lambda>u. ig_did u \<noteq> d) (ignored_users db)\<rparr>"

text \<open>
  The statements of the source that write \<open>profile_changes\<close> or \<open>ignored_users\<close>, as
  operations of a trace.
\<close>

datatype db_op =
    InsertChange SubmitChangeRequest int
  | AddIgnoredUser string int
  | RemoveIgnoredUser string

fun exec_op :: "database \<Rightarrow> db_op \<Rightarrow> database" where
  "exec_op db (InsertChange change now) = snd (insertChange change now db)"
| "exec_op db (AddIgnoredUser d now) = snd (addIgnoredUser d now db)"
| "exec_op db (RemoveIgnoredUser d) = removeIgnoredUser d db"

definition run_ops :: "database \<Rightarrow> db_op list \<Rightarrow> database" where
  "run_ops db ops = foldl exec_op db ops"

text \<open>The rows of the table that a candidate change matches.\<close>

definition matching_rows :: "database \<Rightarrow> SubmitChangeRequest \<Rightarrow> ProfileChangeRow list" where
  "matching_rows db change = filter (duplicate_of change) (profile_changes db)"

text \<open>Every stored id was drawn from the sequence.\<close>

definition ids_below_next :: "database \<Rightarrow> bool" where
  "ids_below_next db = list_all (\<lambda>r. pc_id r < next_id db) (profile_changes db)"


text \<open>
  The seven compared columns of a row and of a request, as tuples; the state invariant of
  the tables: ids come from the sequence and are unique, and no two rows agree on the
  compared columns.
\<close>

definition row_key ::
  "ProfileChangeRow \<Rightarrow> string \<times> string option \<times> string option \<times> string option \<times>
     string option \<times> string option \<times> string option" where
  "row_key r = (pc_did r, pc_old_display_name r, pc_new_display_name r, pc_old_avatar r,
                pc_new_avatar r, pc_old_handle r, pc_new_handle r)"

definition req_key ::
  "SubmitChangeRequest \<Rightarrow> string \<times> string option \<times> string option \<times> string option \<times>
     string option \<times> string option \<times> string option" where
  "req_key c = (did c, or_null (old_display_name c), or_null (new_display_name c),
                or_null (old_avatar c), or_null (new_avatar c),
                or_null (old_handle c), or_null (new_handle c))"

definition db_inv :: "database \<Rightarrow> bool" where
  "db_inv db = (ids_below_next db \<and> distinct (map pc_id (profile_changes db)) \<and>
                distinct (map row_key (profile_changes db)))"

text \<open>
  The assignment of \<open>change_type\<close> in the words of the specification: a handle transition
  is an old and a new handle that are both non-empty strings; a profile-field transition
  is any of the four display-name and avatar fields being present. Read as stated, a field
  is present when it has a value (\<open>has_value\<close>, \<open>stated_change_type\<close>). The amended reading
  counts every field the request carries, also one that is \<open>null\<close> (\<open>given\<close>,
  \<open>spec_change_type\<close>).
\<close>

fun non_empty :: "js_string \<Rightarrow> bool" where
  "non_empty (Str (x # xs)) = True"
| "non_empty other = False"

fun has_value :: "js_string \<Rightarrow> bool" where
  "has_value (Str s) = True"
| "has_value other = False"

fun given :: "js_string \<Rightarrow> bool" where
  "given Undefined = False"
| "given Null = True"
| "given (Str s) = True"

definition handle_transition :: "SubmitChangeRequest \<Rightarrow> bool" where
  "handle_transition c = (non_empty (old_handle c) \<and> non_empty (new_handle c))"

definition stated_profile_transition :: "SubmitChangeRequest \<Rightarrow> bool" where
  "stated_profile_transition c =
     (has_value (old_display_name c) \<or> has_value (new_display_name c) \<or>
      has_value (old_avatar c) \<or> has_value (new_avatar c))"

definition stated_change_type :: "SubmitChangeRequest \<Rightarrow> change_type" where
  "stated_change_type c =
     (if handle_transition c \<and> stated_profile_transition c then combined_change
      else if handle_transition c \<and> \<not> stated_profile_transition c then handle_change
      else profile_change)"

definition profile_transition :: "SubmitChangeRequest \<Rightarrow> bool" where
  "profile_transition c =
     (given (old_display_name c) \<or> given (new_display_name c) \<or>
      given (old_avatar c) \<or> given (new_avatar c))"

definition spec_change_type :: "SubmitChangeRequest \<Rightarrow> change_type" where
  "spec_change_type c =
     (if handle_transition c \<and> profile_transition c then combined_change
      else if handle_transition c \<and> \<not> profile_transition c then handle_change
      else profile_change)"

text \<open>A request as its TypeScript type describes it: no field is an explicit \<open>null\<close>.\<close>

definition typed_request :: "SubmitChangeRequest \<Rightarrow> bool" where
  "typed_request c =
     (old_display_name c \<noteq> Null \<and> new_display_name c \<noteq> Null \<and>
      old_avatar c \<noteq> Null \<and> new_avatar c \<noteq> Null)"

text \<open>Scenario S1 of the specification as a request, and a table state with its DID ignored.\<close>

definition example_change :: SubmitChangeRequest where
  "example_change = \<lparr>did = ''did:plc:a'', handle = Str ''new.alice.example'',
     old_handle = Str ''old.alice.example'', new_handle = Str ''new.alice.example'',
     old_display_name = Undefined, new_display_name = Undefined,
     old_avatar = Undefined, new_avatar = Undefined\<rparr>"


definition ignored_db :: database where
  "ignored_db = snd (addIgnoredUser ''did:plc:a'' 5 empty_db)"

subsection \<open>Calls that overlap\<close>

text \<open>
  \<open>insertChange\<close> is three awaited statements on the pool, each committed on its own:
  the ignore check, the duplicate check, and then either the INSERT or the SELECT of the
  stored row. Statements of other calls can run between them. A call in flight is known
  by a number; it remembers how far it has come. A step that names no call in flight, or
  a call at another stage, changes nothing.
\<close>

datatype call_stage = PastIgnoreCheck | FoundDuplicate nat | NoDuplicate

record insert_call =
  call_id :: nat
  call_change :: SubmitChangeRequest
  call_stage :: call_stage

text \<open>
  The transaction of \<open>addIgnoredUser\<close> (BEGIN, INSERT, DELETE, COMMIT) runs at the default
  isolation level. Its DELETE marks the rows of the DID that are stored when the statement
  runs; the new entry of \<open>ignored_users\<close> and the deletions are seen by the other
  statements from the COMMIT on. A row of the DID that is stored between the DELETE and
  the COMMIT is not marked and stays. An open transaction is known by a number.
\<close>

record ignore_txn =
  txn_id :: nat
  txn_did :: string
  txn_now :: int
  txn_marked :: "nat list"

text \<open>\<open>sys_returned\<close> lists the calls that have returned, with the value they returned.\<close>

record system =
  sys_db :: database
  sys_calls :: "insert_call list"
  sys_txns :: "ignore_txn list"
  sys_returned :: "(nat \<times> ProfileChangeRow option) list"


datatype sys_step =
    IgnoredCheck nat SubmitChangeRequest
  | DuplicateCheck nat
  | FinalStatement nat int
  | AddIgnoredUserDelete nat string int
  | AddIgnoredUserCommit nat
  | RemoveIgnoredUserStmt string

definition find_call :: "nat \<Rightarrow> insert_call list \<Rightarrow> insert_call option" where
  "find_call i calls = find (\<lambda>c. call_id c = i) calls"

definition drop_call :: "nat \<Rightarrow> insert_call list \<Rightarrow> insert_call list" where
  "drop_call i calls = filter (\<lambda>c. call_id c \<noteq> i) calls"

definition set_stage :: "nat \<Rightarrow> call_stage \<Rightarrow> insert_call list \<Rightarrow> insert_call list" where
  "set_stage i st calls = map (\<lambda>c. if call_id c = i then c\<lparr>call_stage := st\<rparr> else c) calls"

definition find_txn :: "nat \<Rightarrow> ignore_txn list \<Rightarrow> ignore_txn option" where
  "find_txn t txns = find (\<lambda>x. txn_id x = t) txns"

definition drop_txn :: "nat \<Rightarrow> ignore_txn list \<Rightarrow> ignore_txn list" where
  "drop_txn t txns = filter (\<lambda>x. txn_id x \<noteq> t) txns"

definition open_txn :: "nat \<Rightarrow> string \<Rightarrow> int \<Rightarrow> database \<Rightarrow> ignore_txn" where
  "open_txn t d now db =
     \<lparr>txn_id = t, txn_did = d, txn_now = now,
      txn_marked = map pc_id (filter (\<lambda>r. pc_did r = d) (profile_changes db))\<rparr>"

definition commit_txn :: "ignore_txn \<Rightarrow> database \<Rightarrow> database" where
  "commit_txn x db =
     db\<lparr>ignored_users :=
          (if isIgnored db (txn_did x) then ignored_users db
           else ignored_users db @ [\<lparr>ig_did = txn_did x, ig_added_at = txn_now x\<rparr>]),
        profile_changes :=
          filter (\<lambda>r. \<not> (pc_did r = txn_did x \<and> pc_id r \<in> set (txn_marked x)))
            (profile_changes db)\<rparr>"

fun sys_exec :: "system \<Rightarrow> sys_step \<Rightarrow> system" where
  "sys_exec y (IgnoredCheck i change) =
     (case find_call i (sys_calls y) of
        Some c \<Rightarrow> y
      | None \<Rightarrow>
          if isIgnored (sys_db y) (did change)
          then y\<lparr>sys_returned := sys_returned y @ [(i, None)]\<rparr>
          else y\<lparr>sys_calls := sys_calls y @
                   [\<lparr>call_id = i, call_change = change, call_stage = PastIgnoreCheck\<rparr>]\<rparr>)"
| "sys_exec y (DuplicateCheck i) =
     (case find_call i (sys_calls y) of
        None \<Rightarrow> y
      | Some c \<Rightarrow>
          (case call_stage c of
             PastIgnoreCheck \<Rightarrow>
               (case duplicateCheck (sys_db y) (call_change c) of
                  Some dup \<Rightarrow>
                    y\<lparr>sys_calls := set_stage i (FoundDuplicate (pc_id dup)) (sys_calls y)\<rparr>
                | None \<Rightarrow> y\<lparr>sys_calls := set_stage i NoDuplicate (sys_calls y)\<rparr>)
           | FoundDuplicate k \<Rightarrow> y
           | NoDuplicate \<Rightarrow> y))"
| "sys_exec y (FinalStatement i now) =
     (case find_call i (sys_calls y) of
        None \<Rightarrow> y
      | Some c \<Rightarrow>
          (case call_stage c of
             PastIgnoreCheck \<Rightarrow> y
           | FoundDuplicate k \<Rightarrow>
               y\<lparr>sys_calls := drop_call i (sys_calls y),
                 sys_returned := sys_returned y @
                   [(i, find (\<lambda>r. pc_id r = k) (profile_changes (sys_db y)))]\<rparr>
           | NoDuplicate \<Rightarrow>
               y\<lparr>sys_db := (sys_db y)
                     \<lparr>profile_changes := profile_changes (sys_db y) @
                                           [new_row (sys_db y) now (call_change c)],
                      next_id := next_id (sys_db y) + 1\<rparr>,
                 sys_calls := drop_call i (sys_calls y),
                 sys_returned := sys_returned y @
                   [(i, Some (new_row (sys_db y) now (call_change c)))]\<rparr>))"
| "sys_exec y (AddIgnoredUserDelete t d now) =
     (case find_txn t (sys_txns y) of
        Some x \<Rightarrow> y
      | None \<Rightarrow> y\<lparr>sys_txns := sys_txns y @ [open_txn t d now (sys_db y)]\<rparr>)"
| "sys_exec y (AddIgnoredUserCommit t) =
     (case find_txn t (sys_txns y) of
        None \<Rightarrow> y
      | Some x \<Rightarrow> y\<lparr>sys_db := commit_txn x (sys_db y), sys_txns := drop_txn t (sys_txns y)\<rparr>)"
| "sys_exec y (RemoveIgnoredUserStmt d) = y\<lparr>sys_db := removeIgnoredUser d (sys_db y)\<rparr>"

definition run_system :: "system \<Rightarrow> sys_step list \<Rightarrow> system" where
  "run_system y steps = foldl sys_exec y steps"










section \<open>Options message (jetstream-service.ts and utils/jetstream-temp.ts)\<close>

text \<open>
  The message object before \<open>JSON.stringify\<close>. The main stream's builder also returns the
  \<open>console.warn\<close> lines it prints; a line records the two numbers it reports.
\<close>

definition MAX_WANTED_DIDS :: nat where
  "MAX_WANTED_DIDS = 10000"

record options_payload =
  wantedCollections :: "string list"
  wantedDids :: "string list"
  maxMessageSizeBytes :: nat

record options_message =
  msg_type :: string
  payload :: options_payload

datatype warning = DidLimitWarning nat nat

definition buildOptionsUpdateMessage :: "string list \<Rightarrow> options_message \<times> warning list" where
  "buildOptionsUpdateMessage dids =
     (let maxDids = min (length dids) MAX_WANTED_DIDS
      in (\<lparr>msg_type = ''options_update'',
           payload = \<lparr>wantedCollections = [''app.bsky.actor.profile'', ''app.bsky.graph.follow''],
                      wantedDids = take maxDids dids,
                      maxMessageSizeBytes = 0\<rparr>\<rparr>,
          if length dids > MAX_WANTED_DIDS then [DidLimitWarning (length dids) maxDids] else []))"

text \<open>The builder of utils/jetstream-temp.ts ("no limit here; upstream may cap").\<close>

definition temp_buildOptionsUpdateMessage :: "string list \<Rightarrow> options_message" where
  "temp_buildOptionsUpdateMessage dids =
     \<lparr>msg_type = ''options_update'',
      payload = \<lparr>wantedCollections = [''app.bsky.actor.profile'', ''app.bsky.graph.follow''],
                 wantedDids = dids,
                 maxMessageSizeBytes = 0\<rparr>\<rparr>"

text \<open>A list of \<open>n\<close> distinct DIDs.\<close>

definition many_dids :: "nat \<Rightarrow> string list" where
  "many_dids n = map (\<lambda>k. ''did:plc:'' @ replicate (Suc k) (CHR ''a'')) [0..<n]"


section \<open>Upstream events and the retry wrapper (jetstream-service.ts)\<close>

text \<open>
  \<open>JetstreamEvent\<close> with its optional parts. \<open>avatar_ref_link\<close> is the path
  \<open>record.avatar?.ref?.$link\<close>. Numbers are integers here (cursors are microseconds, clock
  readings milliseconds); the quotient \<open>time_us / 1000\<close> is taken in the reals, so the
  rounding of a JavaScript double is not modelled.
\<close>

record CommitRecord =
  displayName :: "string option"
  avatar_ref_link :: "string option"
  subject :: "string option"

record Commit =
  operation :: string
  collection :: string
  c_rkey :: "string option"
  c_record :: "CommitRecord option"

record Identity =
  id_did :: string
  id_handle :: "string option"
  id_seq :: int
  id_time :: string

record JetstreamEvent =
  kind :: string
  ev_did :: string
  time_us :: int
  commit :: "Commit option"
  identity :: "Identity option"

text \<open>A thrown value. A call that can throw returns \<open>error + 'a\<close> and the state it leaves.\<close>

datatype error = Error string

definition DB_RETRY_ATTEMPTS :: nat where
  "DB_RETRY_ATTEMPTS = 3"

text \<open>
  \<open>withDBRetry\<close>: the loop \<open>while (true)\<close> with its counter \<open>attempt\<close>; an operation is
  run again on the state its failed attempt left. The sleep between attempts is not modelled.
\<close>

function withDBRetry_from ::
  "nat \<Rightarrow> ('w \<Rightarrow> (error + 'a) \<times> 'w) \<Rightarrow> 'w \<Rightarrow> (error + 'a) \<times> 'w" where
  "withDBRetry_from attempt oper w =
     (case oper w of
        (Inr v, w') \<Rightarrow> (Inr v, w')
      | (Inl err, w') \<Rightarrow>
          (if attempt + 1 \<ge> DB_RETRY_ATTEMPTS then (Inl err, w')
           else withDBRetry_from (attempt + 1) oper w'))"
  by pat_completeness auto
termination
  by (relation "measure (\<lambda>(attempt, oper, w). DB_RETRY_ATTEMPTS - attempt)") auto

definition withDBRetry :: "('w \<Rightarrow> (error + 'a) \<times> 'w) \<Rightarrow> 'w \<Rightarrow> (error + 'a) \<times> 'w" where
  "withDBRetry oper w = withDBRetry_from 0 oper w"

section \<open>Main stream (class JetstreamService)\<close>

datatype ready_state = CONNECTING | OPEN | CLOSING | CLOSED

text \<open>
  A socket: the host and cursor of its URL, its state, and the frames sent on it. A timer
  (\<open>reconnectTimeout\<close>) is the delay in milliseconds of the pending \<open>setTimeout\<close>.
\<close>

record WebSocket =
  ws_host :: string
  ws_cursor :: "int option"
  readyState :: ready_state
  sent :: "options_message list"

record JetstreamService =
  ws :: "WebSocket option"
  reconnectAttempts :: nat
  shouldRun :: bool
  reconnectTimeout :: "nat option"
  currentDIDs :: "string list"
  lastCursor :: "int option"
  startTime :: "int option"
  isInActualBackfill :: bool
  actualBackfillLagSeconds :: "int option"
  lastHost :: "string option"
  stoppedAt :: "int option"
  cursorAtStop :: "int option"

text \<open>The field initialisers of the class.\<close>

definition new_JetstreamService :: JetstreamService where
  "new_JetstreamService =
     \<lparr>ws = None, reconnectAttempts = 0, shouldRun = True, reconnectTimeout = None,
      currentDIDs = [], lastCursor = None, startTime = None, isInActualBackfill = False,
      actualBackfillLagSeconds = None, lastHost = None, stoppedAt = None, cursorAtStop = None\<rparr>"

text \<open>JavaScript truthiness of \<open>number | null\<close>: present and not zero.\<close>

fun truthy_num :: "int option \<Rightarrow> bool" where
  "truthy_num None = False"
| "truthy_num (Some n) = (n \<noteq> 0)"

definition isRunningWithCursor :: "JetstreamService \<Rightarrow> int \<Rightarrow> bool" where
  "isRunningWithCursor s now =
     (let hasValidCursor = (lastCursor s \<noteq> None);
          runningSinceMs = (case startTime s of Some t \<Rightarrow> now - t | None \<Rightarrow> 0);
          runningForAtLeast30s = (runningSinceMs > 30000)
      in hasValidCursor \<and> runningForAtLeast30s)"

record main_stream_status =
  isRunning :: bool
  monitoredDIDs :: nat
  hasValidCursor :: bool

definition getMainStreamStatus :: "JetstreamService \<Rightarrow> int \<Rightarrow> main_stream_status" where
  "getMainStreamStatus s now =
     (let running = (shouldRun s \<and> ws s \<noteq> None \<and> length (currentDIDs s) > 0)
      in \<lparr>isRunning = running,
          monitoredDIDs = length (currentDIDs s),
          hasValidCursor = (running \<and> isRunningWithCursor s now)\<rparr>)"

text \<open>The queries behind \<open>reloadDIDs\<close> (SELECT DISTINCT ...).\<close>

definition getAllMonitoredDIDs :: "database \<Rightarrow> string list" where
  "getAllMonitoredDIDs db = remdups (map follow_did (monitored_follows db))"

definition getMonitoringUsers :: "database \<Rightarrow> string list" where
  "getMonitoringUsers db = remdups (map user_did (monitored_follows db))"

definition getIgnoredUsers :: "database \<Rightarrow> IgnoredUserRow list" where
  "getIgnoredUsers db = ignored_users db"

text \<open>
  \<open>reloadDIDs\<close>. \<open>db_ok\<close> says that the loads succeed within their retries; otherwise the
  error is caught and logged and nothing changes. \<open>ws.close()\<close> moves the socket to CLOSING;
  its close event arrives later (\<open>ws_on_close\<close>).
\<close>

definition reloadDIDs :: "bool \<Rightarrow> database \<Rightarrow> JetstreamService \<Rightarrow> JetstreamService" where
  "reloadDIDs db_ok db s =
     (if \<not> db_ok then s
      else
        let followedDIDs = getAllMonitoredDIDs db;
            userDIDs = getMonitoringUsers db;
            ignoredSet = set (map ig_did (getIgnoredUsers db));
            userDIDsFiltered = filter (\<lambda>d. d \<notin> ignoredSet) userDIDs;
            followedDIDsFiltered = filter (\<lambda>d. d \<notin> ignoredSet) followedDIDs;
            dids = userDIDsFiltered @ filter (\<lambda>d. d \<notin> set userDIDsFiltered) followedDIDsFiltered
        in if length dids = 0 then
             (if length (currentDIDs s) > 0 then s\<lparr>ws := None, currentDIDs := []\<rparr>
              else s\<lparr>currentDIDs := []\<rparr>)
           else if dids \<noteq> currentDIDs s then
             (case ws s of
                Some sock \<Rightarrow>
                  s\<lparr>currentDIDs := dids, reconnectAttempts := 0,
                    ws := Some (sock\<lparr>readyState := CLOSING\<rparr>)\<rparr>
              | None \<Rightarrow> s\<lparr>currentDIDs := dids\<rparr>)
           else s)"

text \<open>
  \<open>connect\<close>. \<open>host\<close> is the host \<open>buildJetstreamRequest\<close> draws; \<open>ctor_ok\<close> says that
  \<open>new WebSocket(url)\<close> does not throw.
\<close>

definition connect :: "string \<Rightarrow> bool \<Rightarrow> JetstreamService \<Rightarrow> JetstreamService" where
  "connect host ctor_ok s =
     (let s1 = s\<lparr>lastHost := None\<rparr>
      in if length (currentDIDs s1) = 0 then s1
         else
           let cursor = (if truthy_num (lastCursor s1) then lastCursor s1 else None);
               s2 = (if truthy_num (lastCursor s1) then s1
                     else s1\<lparr>isInActualBackfill := False, actualBackfillLagSeconds := None\<rparr>);
               s3 = s2\<lparr>lastHost := Some host\<rparr>
           in if ctor_ok then
                s3\<lparr>ws := Some \<lparr>ws_host = host, ws_cursor = cursor, readyState = CONNECTING,
                                sent = []\<rparr>\<rparr>
              else s3\<lparr>reconnectTimeout := Some 5000\<rparr>)"

text \<open>The handlers \<open>connect\<close> registers on the socket for its open and close events.\<close>

definition ws_on_open :: "JetstreamService \<Rightarrow> JetstreamService" where
  "ws_on_open s =
     (let s1 = s\<lparr>reconnectAttempts := 0\<rparr>;
          optionsMessage = fst (buildOptionsUpdateMessage (currentDIDs s1))
      in case ws s1 of
           Some sock \<Rightarrow>
             s1\<lparr>ws := Some (sock\<lparr>readyState := OPEN, sent := sent sock @ [optionsMessage]\<rparr>)\<rparr>
         | None \<Rightarrow> s1)"

text \<open>
  The close handler leaves \<open>this.ws\<close> as it is: the field still refers to the socket, which
  is now CLOSED.
\<close>

definition mark_closed :: "WebSocket option \<Rightarrow> WebSocket option" where
  "mark_closed w = (case w of Some sock \<Rightarrow> Some (sock\<lparr>readyState := CLOSED\<rparr>) | None \<Rightarrow> None)"

definition ws_on_close :: "JetstreamService \<Rightarrow> JetstreamService" where
  "ws_on_close s0 =
     (let s = s0\<lparr>ws := mark_closed (ws s0)\<rparr>
      in if shouldRun s then
           let isManualReconnect = (reconnectAttempts s = 0);
               attempts = (if \<not> isManualReconnect then reconnectAttempts s + 1
                           else reconnectAttempts s);
               delay = (if isManualReconnect then 0 else min (1000 * 2 ^ attempts) 30000)
           in s\<lparr>reconnectAttempts := attempts, reconnectTimeout := Some delay\<rparr>
         else s)"

text \<open>
  \<open>start\<close>. \<open>db\<close> is the database as \<open>syncFollowsForAllUsers\<close> leaves it (that call only
  writes tables and catches its own errors); the clock is read once.
\<close>

definition start ::
  "int option \<Rightarrow> int \<Rightarrow> bool \<Rightarrow> database \<Rightarrow> string \<Rightarrow> bool \<Rightarrow> JetstreamService \<Rightarrow> JetstreamService" where
  "start cursor now db_ok db host ctor_ok s =
     (let s1 = s\<lparr>shouldRun := True, startTime := Some now\<rparr>;
          s2 = (case cursor of
                  None \<Rightarrow> s1
                | Some c \<Rightarrow>
                    let cursorTime = real_of_int c / 1000;
                        timeDiff = real_of_int now - cursorTime;
                        backfill = (timeDiff > 60000)
                    in s1\<lparr>lastCursor := Some c,
                          isInActualBackfill := backfill,
                          actualBackfillLagSeconds :=
                            (if backfill then Some \<lfloor>timeDiff / 1000\<rfloor>
                             else actualBackfillLagSeconds s1)\<rparr>);
          s3 = reloadDIDs db_ok db s2
      in connect host ctor_ok s3)"


subsection \<open>Event processing\<close>

text \<open>
  The three handlers are arguments, as they are for the temporary streams (\<open>TempDeps\<close>).
  \<open>'w\<close> is everything they work on besides the main service object: the tables, the
  profile snapshot map of the calling stream, the resolver. The second argument is the log
  prefix. \<open>handleFollowEvent\<close> also receives the main service, whose \<open>reloadDIDsNow\<close> it
  calls. \<open>processEvent\<close> below is one call taken from its first statement to its last
  with nothing in between; calls that overlap are modelled further down.
\<close>

record 'w handlers =
  dep_handleIdentityEvent :: "JetstreamEvent \<Rightarrow> string option \<Rightarrow> 'w \<Rightarrow> (error + unit) \<times> 'w"
  dep_handleProfileCommit :: "JetstreamEvent \<Rightarrow> string option \<Rightarrow> 'w \<Rightarrow> (error + unit) \<times> 'w"
  dep_handleFollowEvent ::
    "JetstreamEvent \<Rightarrow> string option \<Rightarrow> bool \<Rightarrow> JetstreamService \<times> 'w \<Rightarrow>
       (error + unit) \<times> JetstreamService \<times> 'w"

definition on_world ::
  "('w \<Rightarrow> (error + 'a) \<times> 'w) \<Rightarrow> JetstreamService \<times> 'w \<Rightarrow> (error + 'a) \<times> JetstreamService \<times> 'w" where
  "on_world f sw = (case f (snd sw) of (r, w') \<Rightarrow> (r, (fst sw, w')))"

text \<open>
  The statements of \<open>processEvent\<close> after the handlers have returned. The broadcasts to
  the user interface carry no state and are left out, here and elsewhere.
\<close>

definition advance_cursor :: "int \<Rightarrow> JetstreamService \<Rightarrow> JetstreamService" where
  "advance_cursor eventCursor s =
     (let s1 = s\<lparr>lastCursor := Some eventCursor\<rparr>
      in case startTime s1 of
           Some startTimeMs \<Rightarrow>
             if isInActualBackfill s1 \<and> real_of_int eventCursor / 1000 \<ge> real_of_int startTimeMs
             then s1\<lparr>isInActualBackfill := False, actualBackfillLagSeconds := None\<rparr>
             else s1
         | None \<Rightarrow> s1)"

text \<open>
  \<open>processEvent\<close> of the main stream. A handler that still throws after its retries ends
  the \<open>try\<close> block: the \<open>catch\<close> logs, and the state is the one the handlers left.
\<close>

definition processEvent ::
  "'w handlers \<Rightarrow> JetstreamEvent \<Rightarrow> JetstreamService \<times> 'w \<Rightarrow> JetstreamService \<times> 'w" where
  "processEvent h event sw =
     (let eventCursor = time_us event;
          (r1, sw1) = (if kind event = ''identity''
                       then withDBRetry (on_world (dep_handleIdentityEvent h event None)) sw
                       else (Inr (), sw))
      in case r1 of
           Inl err \<Rightarrow> sw1
         | Inr u1 \<Rightarrow>
             let (r2, sw2) = (if kind event = ''commit''
                              then withDBRetry (on_world (dep_handleProfileCommit h event None)) sw1
                              else (Inr (), sw1))
             in case r2 of
                  Inl err \<Rightarrow> sw2
                | Inr u2 \<Rightarrow>
                    let (r3, sw3) =
                          (if kind event = ''commit''
                           then withDBRetry
                                  (\<lambda>x. dep_handleFollowEvent h event None
                                          (isInActualBackfill (fst x)) x) sw2
                           else (Inr (), sw2))
                    in case r3 of
                         Inl err \<Rightarrow> sw3
                       | Inr u3 \<Rightarrow> (advance_cursor eventCursor (fst sw3), snd sw3))"

section \<open>Temporary streams (utils/jetstream-temp.ts)\<close>

record TemporaryJetstreamService =
  t_userDID :: string
  t_userHandle :: "string option"
  t_follows :: "string list"
  t_startTime :: int
  t_ws :: "WebSocket option"
  t_reconnectAttempts :: nat
  t_reconnectTimeout :: "nat option"
  t_shouldRun :: bool
  t_lastCursor :: "int option"
  t_initialCursor :: "int option"
  t_lastHost :: "string option"
  t_hasStopped :: bool

text \<open>The constructor; \<open>now\<close> is the clock when the object is made.\<close>

definition new_TemporaryJetstreamService ::
  "string \<Rightarrow> string option \<Rightarrow> string list \<Rightarrow> int \<Rightarrow> TemporaryJetstreamService" where
  "new_TemporaryJetstreamService userDID userHandle follows now =
     \<lparr>t_userDID = userDID, t_userHandle = userHandle, t_follows = follows, t_startTime = now,
      t_ws = None, t_reconnectAttempts = 0, t_reconnectTimeout = None, t_shouldRun = True,
      t_lastCursor = None, t_initialCursor = None, t_lastHost = None, t_hasStopped = False\<rparr>"

definition logPrefix :: "TemporaryJetstreamService \<Rightarrow> string" where
  "logPrefix t =
     (case t_userHandle t of
        Some h \<Rightarrow> if h \<noteq> [] then ''[Temp/@'' @ h @ '']'' else ''[Temp/'' @ t_userDID t @ '']''
      | None \<Rightarrow> ''[Temp/'' @ t_userDID t @ '']'')"

definition LOOKBACK_MS_24H :: int where
  "LOOKBACK_MS_24H = 24 * 60 * 60 * 1000"

definition getCursor24hAgo :: "int \<Rightarrow> int" where
  "getCursor24hAgo now = (now - LOOKBACK_MS_24H) * 1000"

text \<open>
  \<open>connect\<close> and \<open>start\<close> of a temporary stream; \<open>??\<close> takes the first value that is not
  null.
\<close>

definition temp_connect :: "string \<Rightarrow> int \<Rightarrow> TemporaryJetstreamService \<Rightarrow> TemporaryJetstreamService" where
  "temp_connect host now t =
     (if \<not> t_shouldRun t then t
      else
        let t1 = t\<lparr>t_lastHost := None, t_reconnectTimeout := None\<rparr>;
            cursor = (case t_lastCursor t1 of
                        Some c \<Rightarrow> c
                      | None \<Rightarrow> (case t_initialCursor t1 of
                                   Some c \<Rightarrow> c
                                 | None \<Rightarrow> getCursor24hAgo now));
            t2 = (if t_initialCursor t1 = None then t1\<lparr>t_initialCursor := Some cursor\<rparr> else t1)
        in t2\<lparr>t_lastHost := Some host,
              t_ws := Some \<lparr>ws_host = host,
                            ws_cursor = (if cursor \<noteq> 0 then Some cursor else None),
                            readyState = CONNECTING, sent = []\<rparr>\<rparr>)"

definition temp_start :: "string \<Rightarrow> int \<Rightarrow> TemporaryJetstreamService \<Rightarrow> TemporaryJetstreamService" where
  "temp_start host now t =
     temp_connect host now
       (t\<lparr>t_shouldRun := True, t_hasStopped := False, t_reconnectAttempts := 0,
          t_lastCursor := None, t_initialCursor := Some (getCursor24hAgo now)\<rparr>)"

definition temp_ws_on_open :: "TemporaryJetstreamService \<Rightarrow> TemporaryJetstreamService" where
  "temp_ws_on_open t =
     (let t1 = t\<lparr>t_reconnectAttempts := 0, t_reconnectTimeout := None\<rparr>;
          message = temp_buildOptionsUpdateMessage (t_follows t1)
      in case t_ws t1 of
           Some sock \<Rightarrow>
             t1\<lparr>t_ws := Some (sock\<lparr>readyState := OPEN, sent := sent sock @ [message]\<rparr>)\<rparr>
         | None \<Rightarrow> t1)"

definition temp_ws_on_close :: "TemporaryJetstreamService \<Rightarrow> TemporaryJetstreamService" where
  "temp_ws_on_close t0 =
     (let t = t0\<lparr>t_ws := None\<rparr>
      in if \<not> t_shouldRun t then t\<lparr>t_reconnectAttempts := 0\<rparr>
         else
           let attempts = t_reconnectAttempts t + 1;
               delay = min (1000 * 2 ^ attempts) 30000
           in t\<lparr>t_reconnectAttempts := attempts, t_reconnectTimeout := Some delay\<rparr>)"

text \<open>
  \<open>stop\<close>: the second component says whether \<open>onStopped\<close> is called (once per stream), which
  makes the manager finalize the stream.
\<close>

definition temp_stop :: "TemporaryJetstreamService \<Rightarrow> TemporaryJetstreamService \<times> bool" where
  "temp_stop t =
     (let t1 = t\<lparr>t_shouldRun := False, t_reconnectTimeout := None, t_reconnectAttempts := 0,
                 t_ws := None\<rparr>
      in if t_hasStopped t1 then (t1, False) else (t1\<lparr>t_hasStopped := True\<rparr>, True))"

text \<open>
  \<open>processEvent\<close> of a temporary stream. The handlers work on the main service (the
  dependency \<open>mainJetstreamService\<close>) and the rest of the world.
\<close>

definition temp_processEvent ::
  "'w handlers \<Rightarrow> JetstreamEvent \<Rightarrow> TemporaryJetstreamService \<times> JetstreamService \<times> 'w \<Rightarrow>
     TemporaryJetstreamService \<times> JetstreamService \<times> 'w" where
  "temp_processEvent deps event tsw =
     (let t = fst tsw; sw = snd tsw;
          prefix = Some (logPrefix t);
          t1 = (if time_us event \<noteq> 0 then t\<lparr>t_lastCursor := Some (time_us event)\<rparr> else t)
      in if time_us event \<noteq> 0 \<and>
            real_of_int (time_us event) / 1000 \<ge> real_of_int (t_startTime t1)
         then (fst (temp_stop t1), sw)
         else
           let (r1, sw1) = (if kind event = ''identity''
                            then withDBRetry (on_world (dep_handleIdentityEvent deps event prefix)) sw
                            else (Inr (), sw))
           in case r1 of
                Inl err \<Rightarrow> (t1, sw1)
              | Inr u1 \<Rightarrow>
                  let (r2, sw2) =
                        (if kind event = ''commit''
                         then withDBRetry (on_world (dep_handleProfileCommit deps event prefix)) sw1
                         else (Inr (), sw1))
                  in case r2 of
                       Inl err \<Rightarrow> (t1, sw2)
                     | Inr u2 \<Rightarrow>
                         let (r3, sw3) =
                               (if kind event = ''commit''
                                then withDBRetry (dep_handleFollowEvent deps event prefix False) sw2
                                else (Inr (), sw2))
                         in (t1, sw3))"



definition keeps_cursor :: "'w handlers \<Rightarrow> bool" where
  "keeps_cursor h =
     (\<forall>event prefix b s w.
        lastCursor (fst (snd (dep_handleFollowEvent h event prefix b (s, w)))) = lastCursor s)"

subsection \<open>Calls of processEvent that overlap\<close>

text \<open>
  The \<open>message\<close> listener of either stream parses the frame and calls \<open>processEvent\<close>
  without awaiting the promise it returns. A call runs up to its first \<open>await\<close> when its
  frame arrives and is then in flight; the frames that arrive before the awaited handler
  settles are handled meanwhile. A call for an event that is neither
  an identity nor a commit event awaits nothing and runs to its end when the frame arrives.

  A step of the event loop is a frame that arrives or the awaited handler of the \<open>k\<close>-th
  call in flight that settles. \<open>withDBRetry\<close> with its handler takes effect in one piece
  at the moment it settles; the statements of two handlers in flight are not interleaved
  with each other.
\<close>

datatype handler_stage = AwaitIdentity | AwaitProfile | AwaitFollow

datatype loop_step = FrameArrives JetstreamEvent | HandlerSettles nat

definition drop_task :: "nat \<Rightarrow> 'a list \<Rightarrow> 'a list" where
  "drop_task k tasks = take k tasks @ drop (Suc k) tasks"


text \<open>
  The main stream with its calls in flight, oldest first. \<open>resume\<close> continues a call of
  \<open>processEvent\<close> whose awaited handler settles, up to its next \<open>await\<close> or to its end:
  the new state, and the stage the call waits in next, if any.
\<close>

record 'w main_loop =
  ml_state :: "JetstreamService \<times> 'w"
  ml_tasks :: "(JetstreamEvent \<times> handler_stage) list"


fun resume ::
  "'w handlers \<Rightarrow> JetstreamEvent \<Rightarrow> handler_stage \<Rightarrow> JetstreamService \<times> 'w \<Rightarrow>
     (JetstreamService \<times> 'w) \<times> handler_stage option" where
  "resume h event AwaitIdentity sw =
     (case withDBRetry (on_world (dep_handleIdentityEvent h event None)) sw of
        (Inl err, sw1) \<Rightarrow> (sw1, None)
      | (Inr u1, sw1) \<Rightarrow>
          if kind event = ''commit'' then (sw1, Some AwaitProfile)
          else ((advance_cursor (time_us event) (fst sw1), snd sw1), None))"
| "resume h event AwaitProfile sw =
     (case withDBRetry (on_world (dep_handleProfileCommit h event None)) sw of
        (Inl err, sw2) \<Rightarrow> (sw2, None)
      | (Inr u2, sw2) \<Rightarrow> (sw2, Some AwaitFollow))"
| "resume h event AwaitFollow sw =
     (case withDBRetry (\<lambda>x. dep_handleFollowEvent h event None (isInActualBackfill (fst x)) x) sw of
        (Inl err, sw3) \<Rightarrow> (sw3, None)
      | (Inr u3, sw3) \<Rightarrow> ((advance_cursor (time_us event) (fst sw3), snd sw3), None))"

fun main_step :: "'w handlers \<Rightarrow> 'w main_loop \<Rightarrow> loop_step \<Rightarrow> 'w main_loop" where
  "main_step h y (FrameArrives event) =
     (if kind event = ''identity''
      then y\<lparr>ml_tasks := ml_tasks y @ [(event, AwaitIdentity)]\<rparr>
      else if kind event = ''commit''
      then y\<lparr>ml_tasks := ml_tasks y @ [(event, AwaitProfile)]\<rparr>
      else y\<lparr>ml_state := (advance_cursor (time_us event) (fst (ml_state y)), snd (ml_state y))\<rparr>)"
| "main_step h y (HandlerSettles k) =
     (if k < length (ml_tasks y)
      then case ml_tasks y ! k of
             (event, stage) \<Rightarrow>
               (case resume h event stage (ml_state y) of
                  (sw', None) \<Rightarrow> \<lparr>ml_state = sw', ml_tasks = drop_task k (ml_tasks y)\<rparr>
                | (sw', Some stage') \<Rightarrow>
                    \<lparr>ml_state = sw', ml_tasks = (ml_tasks y)[k := (event, stage')]\<rparr>)
      else y)"

definition run_loop :: "'w handlers \<Rightarrow> 'w main_loop \<Rightarrow> loop_step list \<Rightarrow> 'w main_loop" where
  "run_loop h y steps = foldl (main_step h) y steps"





text \<open>
  A temporary stream with its calls in flight. A call keeps the log prefix it read when
  its frame arrived.
\<close>

record 'w temp_loop =
  tl_state :: "TemporaryJetstreamService \<times> JetstreamService \<times> 'w"
  tl_tasks :: "(JetstreamEvent \<times> string option \<times> handler_stage) list"


fun temp_resume ::
  "'w handlers \<Rightarrow> JetstreamEvent \<Rightarrow> string option \<Rightarrow> handler_stage \<Rightarrow> JetstreamService \<times> 'w \<Rightarrow>
     (JetstreamService \<times> 'w) \<times> handler_stage option" where
  "temp_resume deps event prefix AwaitIdentity sw =
     (case withDBRetry (on_world (dep_handleIdentityEvent deps event prefix)) sw of
        (Inl err, sw1) \<Rightarrow> (sw1, None)
      | (Inr u1, sw1) \<Rightarrow>
          if kind event = ''commit'' then (sw1, Some AwaitProfile) else (sw1, None))"
| "temp_resume deps event prefix AwaitProfile sw =
     (case withDBRetry (on_world (dep_handleProfileCommit deps event prefix)) sw of
        (Inl err, sw2) \<Rightarrow> (sw2, None)
      | (Inr u2, sw2) \<Rightarrow> (sw2, Some AwaitFollow))"
| "temp_resume deps event prefix AwaitFollow sw =
     (snd (withDBRetry (dep_handleFollowEvent deps event prefix False) sw), None)"

fun temp_step :: "'w handlers \<Rightarrow> 'w temp_loop \<Rightarrow> loop_step \<Rightarrow> 'w temp_loop" where
  "temp_step deps y (FrameArrives event) =
     (let t = fst (tl_state y); sw = snd (tl_state y);
          prefix = Some (logPrefix t);
          t1 = (if time_us event \<noteq> 0 then t\<lparr>t_lastCursor := Some (time_us event)\<rparr> else t)
      in if time_us event \<noteq> 0 \<and>
            real_of_int (time_us event) / 1000 \<ge> real_of_int (t_startTime t1)
         then y\<lparr>tl_state := (fst (temp_stop t1), sw)\<rparr>
         else if kind event = ''identity''
         then \<lparr>tl_state = (t1, sw), tl_tasks = tl_tasks y @ [(event, prefix, AwaitIdentity)]\<rparr>
         else if kind event = ''commit''
         then \<lparr>tl_state = (t1, sw), tl_tasks = tl_tasks y @ [(event, prefix, AwaitProfile)]\<rparr>
         else y\<lparr>tl_state := (t1, sw)\<rparr>)"
| "temp_step deps y (HandlerSettles k) =
     (if k < length (tl_tasks y)
      then case tl_tasks y ! k of
             (event, prefix, stage) \<Rightarrow>
               (case temp_resume deps event prefix stage (snd (tl_state y)) of
                  (sw', None) \<Rightarrow>
                    \<lparr>tl_state = (fst (tl_state y), sw'), tl_tasks = drop_task k (tl_tasks y)\<rparr>
                | (sw', Some stage') \<Rightarrow>
                    \<lparr>tl_state = (fst (tl_state y), sw'),
                     tl_tasks = (tl_tasks y)[k := (event, prefix, stage')]\<rparr>)
      else y)"

definition run_temp_loop :: "'w handlers \<Rightarrow> 'w temp_loop \<Rightarrow> loop_step list \<Rightarrow> 'w temp_loop" where
  "run_temp_loop deps y steps = foldl (temp_step deps) y steps"


text \<open>An event whose call is over before anything else happens.\<close>

definition one_at_a_time :: "JetstreamEvent \<Rightarrow> loop_step list" where
  "one_at_a_time event = [FrameArrives event, HandlerSettles 0, HandlerSettles 0]"

subsection \<open>The manager of the temporary streams\<close>

text \<open>
  \<open>activeStreams\<close> is a JavaScript \<open>Map\<close>: a list of entries in insertion order with the
  operations \<open>has\<close>, \<open>get\<close>, \<open>set\<close> (which replaces the value of a key that is there),
  \<open>delete\<close> and \<open>size\<close>. A manager operation runs to its end before the next one starts.
\<close>

record queue_entry =
  q_userDID :: string
  q_follows :: "string list"

record TemporaryJetstreamManager =
  activeStreams :: "(string \<times> TemporaryJetstreamService) list"
  queue :: "queue_entry list"

definition new_TemporaryJetstreamManager :: TemporaryJetstreamManager where
  "new_TemporaryJetstreamManager = \<lparr>activeStreams = [], queue = []\<rparr>"

definition map_has :: "string \<Rightarrow> (string \<times> 'v) list \<Rightarrow> bool" where
  "map_has k m = (k \<in> set (map fst m))"

definition map_get :: "string \<Rightarrow> (string \<times> 'v) list \<Rightarrow> 'v option" where
  "map_get k m = map_of m k"

definition map_set :: "string \<Rightarrow> 'v \<Rightarrow> (string \<times> 'v) list \<Rightarrow> (string \<times> 'v) list" where
  "map_set k v m =
     (if map_has k m then map (\<lambda>e. if fst e = k then (k, v) else e) m else m @ [(k, v)])"

definition map_delete :: "string \<Rightarrow> (string \<times> 'v) list \<Rightarrow> (string \<times> 'v) list" where
  "map_delete k m = filter (\<lambda>e. fst e \<noteq> k) m"

definition map_size :: "(string \<times> 'v) list \<Rightarrow> nat" where
  "map_size m = length m"

text \<open>
  What \<open>startStreamForUser\<close> reads from outside the manager: the resolved handle of the
  user, the rows of \<open>getIgnoredUsers\<close> (None when the query throws), whether the two
  backfill markers can be written within their retries, whether \<open>service.start()\<close> returns
  normally, the clock and the host drawn for the connection.
\<close>

record start_env =
  env_userHandle :: "string option"
  env_ignored :: "string list option"
  env_markStarted_ok :: bool
  env_markCompleted_ok :: bool
  env_start_ok :: bool
  env_now :: int
  env_host :: string

definition startStreamForUser ::
  "start_env \<Rightarrow> string \<Rightarrow> string list \<Rightarrow> TemporaryJetstreamManager \<Rightarrow>
     (error + unit) \<times> TemporaryJetstreamManager" where
  "startStreamForUser env userDID follows m =
     (case env_ignored env of
        None \<Rightarrow> (Inl (Error ''getIgnoredUsers''), m)
      | Some ignored \<Rightarrow>
          let filteredFollows = filter (\<lambda>d. d \<notin> set ignored) follows
          in if length filteredFollows = 0 then
               (if \<not> env_markStarted_ok env then (Inl (Error ''markBackfillStarted''), m)
                else if \<not> env_markCompleted_ok env then (Inl (Error ''markBackfillCompleted''), m)
                else (Inr (), m))
             else
               let service = new_TemporaryJetstreamService userDID (env_userHandle env)
                               filteredFollows (env_now env);
                   m1 = m\<lparr>activeStreams := map_set userDID service (activeStreams m)\<rparr>
               in if \<not> env_markStarted_ok env then (Inl (Error ''markBackfillStarted''), m1)
                  else if env_start_ok env then
                    (Inr (),
                     m1\<lparr>activeStreams :=
                          map_set userDID (temp_start (env_host env) (env_now env) service)
                            (activeStreams m1)\<rparr>)
                  else
                    (Inl (Error ''start''),
                     m1\<lparr>activeStreams := map_delete userDID (activeStreams m1)\<rparr>))"

text \<open>
  \<open>startForUser\<close>: throws for a user with an active stream; at capacity the request is put
  in the queue (its promise settles when the request is promoted; \<open>Queued n\<close> carries the
  position that is logged); otherwise the stream is started.
\<close>

datatype start_result = AlreadyActive | Queued nat | Started | StartFailed error

definition startForUser ::
  "nat \<Rightarrow> start_env \<Rightarrow> string \<Rightarrow> string list \<Rightarrow> TemporaryJetstreamManager \<Rightarrow>
     start_result \<times> TemporaryJetstreamManager" where
  "startForUser maxConcurrentTempStreams env userDID follows m =
     (if map_has userDID (activeStreams m) then (AlreadyActive, m)
      else if map_size (activeStreams m) \<ge> maxConcurrentTempStreams then
        (Queued (length (queue m) + 1),
         m\<lparr>queue := queue m @ [\<lparr>q_userDID = userDID, q_follows = follows\<rparr>]\<rparr>)
      else
        (case startStreamForUser env userDID follows m of
           (Inr u, m') \<Rightarrow> (Started, m')
         | (Inl err, m') \<Rightarrow> (StartFailed err, m')))"

text \<open>\<open>processQueue\<close> promotes at most one request; a failure goes to the request's promise.\<close>

definition processQueue ::
  "nat \<Rightarrow> start_env \<Rightarrow> TemporaryJetstreamManager \<Rightarrow> TemporaryJetstreamManager" where
  "processQueue maxConcurrentTempStreams env m =
     (case queue m of
        [] \<Rightarrow> m
      | next # rest \<Rightarrow>
          if map_size (activeStreams m) \<ge> maxConcurrentTempStreams then m
          else snd (startStreamForUser env (q_userDID next) (q_follows next) (m\<lparr>queue := rest\<rparr>)))"

text \<open>
  \<open>finalizeStream\<close>: a failure to write the completion marker is caught and logged. \<open>env\<close>
  is what the promoted request, if any, reads.
\<close>

definition finalizeStream ::
  "nat \<Rightarrow> start_env \<Rightarrow> string \<Rightarrow> TemporaryJetstreamManager \<Rightarrow> TemporaryJetstreamManager" where
  "finalizeStream maxConcurrentTempStreams env userDID m =
     (case map_get userDID (activeStreams m) of
        None \<Rightarrow> m
      | Some service \<Rightarrow>
          processQueue maxConcurrentTempStreams env
            (m\<lparr>activeStreams := map_delete userDID (activeStreams m)\<rparr>))"

text \<open>
  \<open>stopForUser\<close> stops the user's stream, whose \<open>onStopped\<close> callback finalizes it. The same
  callback runs when a stream stops itself on catching up (\<open>stream_caught_up\<close>).
\<close>

definition stopForUser ::
  "nat \<Rightarrow> start_env \<Rightarrow> string \<Rightarrow> TemporaryJetstreamManager \<Rightarrow> TemporaryJetstreamManager" where
  "stopForUser maxConcurrentTempStreams env userDID m =
     (case map_get userDID (activeStreams m) of
        None \<Rightarrow> m
      | Some service \<Rightarrow>
          (case temp_stop service of
             (service', True) \<Rightarrow>
               finalizeStream maxConcurrentTempStreams env userDID
                 (m\<lparr>activeStreams := map_set userDID service' (activeStreams m)\<rparr>)
           | (service', False) \<Rightarrow>
               m\<lparr>activeStreams := map_set userDID service' (activeStreams m)\<rparr>))"

definition stream_caught_up ::
  "nat \<Rightarrow> start_env \<Rightarrow> string \<Rightarrow> TemporaryJetstreamManager \<Rightarrow> TemporaryJetstreamManager" where
  "stream_caught_up maxConcurrentTempStreams env userDID m =
     stopForUser maxConcurrentTempStreams env userDID m"

datatype manager_op =
    StartForUser start_env string "string list"
  | StopForUser start_env string
  | StreamCaughtUp start_env string

fun manager_step :: "nat \<Rightarrow> TemporaryJetstreamManager \<Rightarrow> manager_op \<Rightarrow> TemporaryJetstreamManager" where
  "manager_step mx m (StartForUser env u fs) = snd (startForUser mx env u fs m)"
| "manager_step mx m (StopForUser env u) = stopForUser mx env u m"
| "manager_step mx m (StreamCaughtUp env u) = stream_caught_up mx env u m"

definition run_manager :: "nat \<Rightarrow> manager_op list \<Rightarrow> TemporaryJetstreamManager" where
  "run_manager mx ops = foldl (manager_step mx) new_TemporaryJetstreamManager ops"

text \<open>
  A run that fills the pool of 50, queues two more requests and then, after the only
  follow of the first queued user has been put on the ignore list, stops one stream.
\<close>

definition env_ok :: start_env where
  "env_ok = \<lparr>env_userHandle = None, env_ignored = Some [], env_markStarted_ok = True,
     env_markCompleted_ok = True, env_start_ok = True, env_now = 1700000000000,
     env_host = ''jetstream1.example''\<rparr>"

definition pool_user :: "nat \<Rightarrow> string" where
  "pool_user k = ''did:plc:user'' @ replicate k (CHR ''x'')"

definition fill_pool :: "manager_op list" where
  "fill_pool = map (\<lambda>k. StartForUser env_ok (pool_user k) [''did:plc:follow'']) [0..<50]"

definition stalled_queue_run :: "manager_op list" where
  "stalled_queue_run =
     fill_pool @
     [StartForUser env_ok ''did:plc:q1'' [''did:plc:g''],
      StartForUser env_ok ''did:plc:q2'' [''did:plc:h''],
      StopForUser (env_ok\<lparr>env_ignored := Some [''did:plc:g'']\<rparr>) (pool_user 0)]"


section \<open>The follow handler (handleFollowEvent in jetstream-service.ts)\<close>

text \<open>
  The handler works on the main service, the tables and the log. Of the log only the
  \<open>console.warn\<close> lines and the line that \<open>reloadDIDsNow\<close> prints when it is called are
  kept. \<open>resolveHandle\<close> (utils/handle-resolver.ts) is an argument: it returns a handle or
  null and does not throw. \<open>db_ok k\<close> says that the \<open>k\<close>-th query of the call succeeds;
  a query that fails throws and changes nothing.
\<close>

datatype log_line =
    WarnCouldNotResolve string
  | WarnDeleteWithoutRkey
  | ReloadTriggered string

record follow_world =
  fw_db :: database
  fw_log :: "log_line list"

definition hasMonitoringEnabled :: "database \<Rightarrow> string \<Rightarrow> bool" where
  "hasMonitoringEnabled db userDID =
     (length (filter (\<lambda>r. user_did r = userDID) (monitored_follows db)) > 0)"

definition getMonitoredFollows :: "database \<Rightarrow> string \<Rightarrow> MonitoredFollowRow list" where
  "getMonitoredFollows db userDID = filter (\<lambda>r. user_did r = userDID) (monitored_follows db)"

text \<open>
  One row of the bulk upsert: ON CONFLICT (user_did, follow_did) DO UPDATE SET
  follow_handle = EXCLUDED.follow_handle, rkey = COALESCE(EXCLUDED.rkey, rkey). The bound
  value of the key is \<open>follow.rkey || null\<close>.
\<close>

record follow_input =
  f_did :: string
  f_handle :: string
  f_rkey :: "string option"

definition upsert_follow ::
  "int \<Rightarrow> string \<Rightarrow> MonitoredFollowRow list \<Rightarrow> follow_input \<Rightarrow> MonitoredFollowRow list" where
  "upsert_follow now userDID rows f =
     (let excluded_rkey = (if truthy (f_rkey f) then f_rkey f else None)
      in if \<exists>r \<in> set rows. user_did r = userDID \<and> follow_did r = f_did f then
           map (\<lambda>r. if user_did r = userDID \<and> follow_did r = f_did f
                     then r\<lparr>follow_handle := Some (f_handle f),
                            rkey := (case excluded_rkey of Some k \<Rightarrow> Some k | None \<Rightarrow> rkey r)\<rparr>
                     else r) rows
         else rows @ [\<lparr>user_did = userDID, follow_did = f_did f,
                        follow_handle = Some (f_handle f), rkey = excluded_rkey,
                        added_at = now\<rparr>])"

definition addMonitoredFollows ::
  "string \<Rightarrow> follow_input list \<Rightarrow> int \<Rightarrow> database \<Rightarrow> database" where
  "addMonitoredFollows userDID follows now db =
     db\<lparr>monitored_follows := foldl (upsert_follow now userDID) (monitored_follows db) follows\<rparr>"

definition getFollowDIDByRkey :: "database \<Rightarrow> string \<Rightarrow> string \<Rightarrow> string option" where
  "getFollowDIDByRkey db userDID k =
     (case filter (\<lambda>r. user_did r = userDID \<and> rkey r = Some k) (monitored_follows db) of
        [] \<Rightarrow> None
      | r # rs \<Rightarrow> Some (follow_did r))"

definition removeMonitoredFollowByRkey :: "string \<Rightarrow> string \<Rightarrow> database \<Rightarrow> database" where
  "removeMonitoredFollowByRkey userDID k db =
     db\<lparr>monitored_follows :=
          filter (\<lambda>r. \<not> (user_did r = userDID \<and> rkey r = Some k)) (monitored_follows db)\<rparr>"

definition reloadDIDsNow ::
  "string \<Rightarrow> bool \<Rightarrow> JetstreamService \<times> follow_world \<Rightarrow> JetstreamService \<times> follow_world" where
  "reloadDIDsNow source db_ok sw =
     (reloadDIDs db_ok (fw_db (snd sw)) (fst sw),
      (snd sw)\<lparr>fw_log := fw_log (snd sw) @ [ReloadTriggered source]\<rparr>)"

definition follow_create ::
  "(string \<Rightarrow> string option) \<Rightarrow> (nat \<Rightarrow> bool) \<Rightarrow> int \<Rightarrow> string \<Rightarrow> Commit \<Rightarrow>
     JetstreamService \<times> follow_world \<Rightarrow> (error + unit) \<times> JetstreamService \<times> follow_world" where
  "follow_create resolveHandle db_ok now followerDID c sw =
     (case c_record c of
        None \<Rightarrow> (Inr (), sw)
      | Some r \<Rightarrow>
          (case subject r of
             None \<Rightarrow> (Inr (), sw)
           | Some followedDID \<Rightarrow>
               if followedDID = [] then (Inr (), sw)
               else
                 let unresolved =
                       (Inr (), (fst sw,
                                 (snd sw)\<lparr>fw_log := fw_log (snd sw) @
                                                      [WarnCouldNotResolve followedDID]\<rparr>))
                 in case resolveHandle followedDID of
                      None \<Rightarrow> unresolved
                    | Some followedHandle \<Rightarrow>
                        if followedHandle = [] then unresolved
                        else if \<not> db_ok 1 then (Inl (Error ''getMonitoredFollows''), sw)
                        else
                          let existingFollows = getMonitoredFollows (fw_db (snd sw)) followerDID;
                              alreadyExists =
                                (\<exists>f \<in> set existingFollows. follow_did f = followedDID)
                          in if alreadyExists then (Inr (), sw)
                             else if \<not> db_ok 2 then (Inl (Error ''addMonitoredFollows''), sw)
                             else
                               let db' = addMonitoredFollows followerDID
                                           [\<lparr>f_did = followedDID, f_handle = followedHandle,
                                             f_rkey = c_rkey c\<rparr>] now (fw_db (snd sw))
                               in (Inr (),
                                   reloadDIDsNow ''auto'' (db_ok 3)
                                     (fst sw, (snd sw)\<lparr>fw_db := db'\<rparr>))))"

definition follow_delete ::
  "(nat \<Rightarrow> bool) \<Rightarrow> string \<Rightarrow> Commit \<Rightarrow>
     JetstreamService \<times> follow_world \<Rightarrow> (error + unit) \<times> JetstreamService \<times> follow_world" where
  "follow_delete db_ok followerDID c sw =
     (let no_rkey =
            (Inr (), (fst sw, (snd sw)\<lparr>fw_log := fw_log (snd sw) @ [WarnDeleteWithoutRkey]\<rparr>))
      in case c_rkey c of
           None \<Rightarrow> no_rkey
         | Some k \<Rightarrow>
             if k = [] then no_rkey
             else if \<not> db_ok 1 then (Inl (Error ''getFollowDIDByRkey''), sw)
             else
               case getFollowDIDByRkey (fw_db (snd sw)) followerDID k of
                 None \<Rightarrow> (Inr (), sw)
               | Some removedDID \<Rightarrow>
                   if removedDID = [] then (Inr (), sw)
                   else if \<not> db_ok 2 then (Inl (Error ''removeMonitoredFollowByRkey''), sw)
                   else
                     let db' = removeMonitoredFollowByRkey followerDID k (fw_db (snd sw));
                         sw' = (fst sw, (snd sw)\<lparr>fw_db := db'\<rparr>)
                     in if \<not> db_ok 3 then (Inl (Error ''getAllMonitoredDIDs''), sw')
                        else
                          let stillMonitored = (removedDID \<in> set (getAllMonitoredDIDs db'))
                          in if stillMonitored then (Inr (), sw')
                             else (Inr (), reloadDIDsNow ''auto'' (db_ok 4) sw'))"

text \<open>
  \<open>handleFollowEvent\<close>, with the arguments in the order of the handler record: the event,
  the log prefix, \<open>isInBackfill\<close>, and the main service with the world.
\<close>

definition handleFollowEvent ::
  "(string \<Rightarrow> string option) \<Rightarrow> (nat \<Rightarrow> bool) \<Rightarrow> int \<Rightarrow> JetstreamEvent \<Rightarrow> string option \<Rightarrow>
     bool \<Rightarrow> JetstreamService \<times> follow_world \<Rightarrow> (error + unit) \<times> JetstreamService \<times> follow_world" where
  "handleFollowEvent resolveHandle db_ok now event prefix isInBackfill sw =
     (if kind event \<noteq> ''commit'' then (Inr (), sw)
      else
        case commit event of
          None \<Rightarrow> (Inr (), sw)
        | Some c \<Rightarrow>
            if collection c \<noteq> ''app.bsky.graph.follow'' then (Inr (), sw)
            else if operation c \<noteq> ''create'' \<and> operation c \<noteq> ''delete'' then (Inr (), sw)
            else if \<not> db_ok 0 then (Inl (Error ''hasMonitoringEnabled''), sw)
            else if \<not> hasMonitoringEnabled (fw_db (snd sw)) (ev_did event) then (Inr (), sw)
            else if isInBackfill \<and> \<not> truthy prefix then (Inr (), sw)
            else if operation c = ''create'' then
              follow_create resolveHandle db_ok now (ev_did event) c sw
            else follow_delete db_ok (ev_did event) c sw)"

text \<open>
  A follow-create event of a monitoring user to a subject whose handle does not resolve,
  and the world it arrives in.
\<close>

definition example_follow_event :: JetstreamEvent where
  "example_follow_event =
     \<lparr>kind = ''commit'', ev_did = ''did:plc:u'', time_us = 1700000000000000,
      commit = Some \<lparr>operation = ''create'', collection = ''app.bsky.graph.follow'',
                      c_rkey = Some ''k1'',
                      c_record = Some \<lparr>displayName = None, avatar_ref_link = None,
                                        subject = Some ''did:plc:c''\<rparr>\<rparr>,
      identity = None\<rparr>"

definition example_world :: follow_world where
  "example_world =
     \<lparr>fw_db = empty_db\<lparr>monitored_follows :=
                [\<lparr>user_did = ''did:plc:u'', follow_did = ''did:plc:a'',
                  follow_handle = Some ''a.example'', rkey = Some ''k0'', added_at = 0\<rparr>]\<rparr>,
      fw_log = []\<rparr>"

text \<open>
  A main stream that was started 40 s before the clock reading 1700000100000, with its
  cursor exactly 60 s old at the start, and whose socket has opened.
\<close>

definition connected_service :: JetstreamService where
  "connected_service =
     ws_on_open (start (Some 1700000000000000) 1700000060000 True (fw_db example_world)
                   ''jetstream1.example'' True new_JetstreamService)"

text \<open>
  Handlers that cannot reach the database, an identity event, and a temporary stream that
  started after the event's time.
\<close>

definition failing_handlers :: "unit handlers" where
  "failing_handlers =
     \<lparr>dep_handleIdentityEvent = (\<lambda>event prefix w. (Inl (Error ''connection refused''), w)),
      dep_handleProfileCommit = (\<lambda>event prefix w. (Inl (Error ''connection refused''), w)),
      dep_handleFollowEvent = (\<lambda>event prefix b sw. (Inl (Error ''connection refused''), sw))\<rparr>"

definition succeeding_handlers :: "unit handlers" where
  "succeeding_handlers =
     \<lparr>dep_handleIdentityEvent = (\<lambda>event prefix w. (Inr (), w)),
      dep_handleProfileCommit = (\<lambda>event prefix w. (Inr (), w)),
      dep_handleFollowEvent = (\<lambda>event prefix b sw. (Inr (), sw))\<rparr>"

definition example_identity_event :: JetstreamEvent where
  "example_identity_event =
     \<lparr>kind = ''identity'', ev_did = ''did:plc:a'', time_us = 1700000050000000,
      commit = None,
      identity = Some \<lparr>id_did = ''did:plc:a'', id_handle = Some ''new.alice.example'',
                        id_seq = 1, id_time = ''2023-11-14T22:14:10.000Z''\<rparr>\<rparr>"


definition example_temp_stream :: TemporaryJetstreamService where
  "example_temp_stream =
     temp_start ''jetstream1.example'' 1700000100000
       (new_TemporaryJetstreamService ''did:plc:u'' None [''did:plc:a''] 1700000100000)"





text \<open>The stream the pool holds for its \<open>k\<close>-th user, and a stretch of the pool's entries.\<close>

definition pool_service :: "nat \<Rightarrow> TemporaryJetstreamService" where
  "pool_service k =
     temp_start (env_host env_ok) (env_now env_ok)
       (new_TemporaryJetstreamService (pool_user k) None [''did:plc:follow''] (env_now env_ok))"

definition pool_entries :: "nat \<Rightarrow> nat \<Rightarrow> (string \<times> TemporaryJetstreamService) list" where
  "pool_entries i j = map (\<lambda>k. (pool_user k, pool_service k)) [i..<j]"

section \<open>Properties of change persistence\<close>

lemma duplicate_of_key: "duplicate_of c r \<longleftrightarrow> row_key r = req_key c"
  by (auto simp: duplicate_of_def row_key_def req_key_def)

lemma new_row_dup: "duplicate_of c (new_row db now c)"
  by (simp add: duplicate_of_def new_row_def)

lemma row_key_new_row: "row_key (new_row db now c) = req_key c"
  by (simp add: row_key_def req_key_def new_row_def)

lemma find_None_filter: "find P xs = None \<Longrightarrow> filter P xs = []"
  by (induction xs) (auto split: if_splits)

lemma find_Some_mem: "find P xs = Some x \<Longrightarrow> x \<in> set xs \<and> P x"
  by (induction xs) (auto split: if_splits)

lemma find_id_distinct:
  "distinct (map f xs) \<Longrightarrow> x \<in> set xs \<Longrightarrow> find (\<lambda>r. f r = f x) xs = Some x"
  by (induction xs) (auto simp: image_iff)

lemma find_filter_single: "filter P xs = [r] \<Longrightarrow> find P xs = Some r"
  by (induction xs) (auto split: if_splits)

lemma find_None_iff_key:
  "find (duplicate_of c) xs = None \<longleftrightarrow> req_key c \<notin> set (map row_key xs)"
  by (induction xs) (auto simp: duplicate_of_key)

lemma filter_key_distinct:
  "distinct (map f xs) \<Longrightarrow> x \<in> set xs \<Longrightarrow> filter (\<lambda>r. f r = f x) xs = [x]"
  by (induction xs) (auto simp: image_iff filter_empty_conv)

lemma matching_rows_key:
  "matching_rows db c = filter (\<lambda>r. row_key r = req_key c) (profile_changes db)"
  unfolding matching_rows_def by (rule filter_cong) (simp_all add: duplicate_of_key)

lemma insertChange_dup_case:
  assumes "\<not> isIgnored db (did c)" and "duplicateCheck db c = Some dup"
    and "distinct (map pc_id (profile_changes db))"
  shows "insertChange c now db = (Some dup, db)"
  using assms find_Some_mem[of "duplicate_of c" "profile_changes db" dup]
  by (simp add: insertChange_def duplicateCheck_def find_id_distinct)

lemma insertChange_new_case:
  assumes "\<not> isIgnored db (did c)" and "duplicateCheck db c = None"
  shows "insertChange c now db =
           (Some (new_row db now c),
            db\<lparr>profile_changes := profile_changes db @ [new_row db now c],
               next_id := next_id db + 1\<rparr>)"
  using assms by (simp add: insertChange_def)

lemma isIgnored_insertChange: "isIgnored (snd (insertChange c now db)) d = isIgnored db d"
  by (simp add: insertChange_def isIgnored_def split: option.splits)

lemma duplicateCheck_single: "matching_rows db c = [r] \<Longrightarrow> duplicateCheck db c = Some r"
  unfolding matching_rows_def duplicateCheck_def by (rule find_filter_single)

subsection \<open>The table invariant holds in every reachable state\<close>

lemma db_inv_empty: "db_inv empty_db"
  by (simp add: db_inv_def empty_db_def ids_below_next_def)

lemma db_inv_insertChange: "db_inv db \<Longrightarrow> db_inv (snd (insertChange c now db))"
  unfolding insertChange_def duplicateCheck_def
  by (auto simp: db_inv_def ids_below_next_def list_all_iff
      new_row_def[of db now c, THEN arg_cong[of _ _ pc_id]] row_key_new_row find_None_iff_key
      split: option.splits)

lemma db_inv_addIgnoredUser: "db_inv db \<Longrightarrow> db_inv (snd (addIgnoredUser d now db))"
  by (auto simp: addIgnoredUser_def db_inv_def ids_below_next_def list_all_iff
      distinct_map_filter)

lemma db_inv_removeIgnoredUser: "db_inv db \<Longrightarrow> db_inv (removeIgnoredUser d db)"
  by (auto simp: removeIgnoredUser_def db_inv_def ids_below_next_def)

lemma db_inv_exec_op: "db_inv db \<Longrightarrow> db_inv (exec_op db op)"
  by (cases op)
     (simp_all add: db_inv_insertChange db_inv_addIgnoredUser db_inv_removeIgnoredUser)

lemma db_inv_run_ops: "db_inv db \<Longrightarrow> db_inv (run_ops db ops)"
  unfolding run_ops_def by (induction ops arbitrary: db) (simp_all add: db_inv_exec_op)

lemma insertChange_first:
  assumes inv: "db_inv db" and ni: "\<not> isIgnored db (did c)"
  shows "\<exists>r. insertChange c now db = (Some r, snd (insertChange c now db)) \<and>
             matching_rows (snd (insertChange c now db)) c = [r]"
proof (cases "duplicateCheck db c")
  case None
  then have e: "filter (duplicate_of c) (profile_changes db) = []"
    by (simp add: duplicateCheck_def find_None_filter)
  show ?thesis using None ni e
    by (simp add: insertChange_new_case matching_rows_def new_row_dup)
next
  case (Some dup)
  have d: "distinct (map pc_id (profile_changes db))"
    and k: "distinct (map row_key (profile_changes db))"
    using inv by (simp_all add: db_inv_def)
  have m: "dup \<in> set (profile_changes db)" and dk: "row_key dup = req_key c"
    using Some find_Some_mem[of "duplicate_of c" "profile_changes db" dup]
    by (simp_all add: duplicateCheck_def duplicate_of_key)
  have "matching_rows db c = [dup]"
    using filter_key_distinct[OF k m] dk by (simp add: matching_rows_key)
  then show ?thesis using insertChange_dup_case[OF ni Some d] by simp
qed

text \<open>
  Claim C2, as amended. In every state of the tables that the writing operations reach
  from the empty database, and for every candidate change whose DID is not on the ignore
  list: the first \<open>insertChange\<close> returns a row \<open>r\<close>, the second call (at any later time)
  returns the same row \<open>r\<close> and leaves the tables as the first call left them, and \<open>r\<close> is
  then the one and only row of \<open>profile_changes\<close> that matches the change on the seven
  compared columns (NULL equal to NULL).
\<close>

theorem insertChange_idempotent:
  assumes ni: "\<not> isIgnored (run_ops empty_db ops) (did change)"
  shows "\<exists>r db1. insertChange change now1 (run_ops empty_db ops) = (Some r, db1) \<and>
                 insertChange change now2 db1 = (Some r, db1) \<and>
                 matching_rows db1 change = [r]"
proof -
  let ?db = "run_ops empty_db ops"
  let ?db1 = "snd (insertChange change now1 ?db)"
  have inv: "db_inv ?db" by (simp add: db_inv_run_ops db_inv_empty)
  obtain r where r1: "insertChange change now1 ?db = (Some r, ?db1)"
    and m1: "matching_rows ?db1 change = [r]"
    using insertChange_first[OF inv ni] by blast
  have inv1: "db_inv ?db1" using inv by (rule db_inv_insertChange)
  have ni1: "\<not> isIgnored ?db1 (did change)" using ni by (simp add: isIgnored_insertChange)
  have d1: "distinct (map pc_id (profile_changes ?db1))" using inv1 by (simp add: db_inv_def)
  have "insertChange change now2 ?db1 = (Some r, ?db1)"
    using insertChange_dup_case[OF ni1 duplicateCheck_single[OF m1] d1] .
  with r1 m1 show ?thesis by blast
qed

text \<open>The theorem at scenario S1 and S2 of the specification, on the empty database.\<close>

theorem insertChange_idempotent_witness:
  "\<not> isIgnored (run_ops empty_db []) (did example_change) \<and>
   (\<exists>r db1. insertChange example_change 10 (run_ops empty_db []) = (Some r, db1) \<and>
             insertChange example_change 20 db1 = (Some r, db1) \<and>
             matching_rows db1 example_change = [r])"
  using insertChange_idempotent[of "[]" example_change 10 20]
  by (simp add: run_ops_def empty_db_def isIgnored_def)

text \<open>
  Claim C2 as stated fails for a candidate whose DID is ignored: both calls return null
  and no row is stored.
\<close>

theorem insertChange_ignored_counterexample:
  "isIgnored ignored_db (did example_change) \<and>
   insertChange example_change 10 ignored_db = (None, ignored_db) \<and>
   insertChange example_change 20 (snd (insertChange example_change 10 ignored_db)) =
     (None, ignored_db) \<and>
   matching_rows ignored_db example_change = []"
  by (simp add: ignored_db_def addIgnoredUser_def empty_db_def isIgnored_def insertChange_def
      example_change_def matching_rows_def)

subsection \<open>Ignored DIDs\<close>







lemma isIgnored_add: "isIgnored (snd (addIgnoredUser d now db)) x = (x = d \<or> isIgnored db x)"
  by (auto simp: addIgnoredUser_def isIgnored_def)



































text \<open>
  The three statements of a call, run without anything in between, are \<open>insertChange\<close>
  as one step; the transaction, run without anything between its DELETE and its COMMIT,
  is \<open>addIgnoredUser\<close> as one step.
\<close>

lemma find_call_append_new:
  "find_call i calls = None \<Longrightarrow>
   find_call i (calls @ [\<lparr>call_id = i, call_change = c, call_stage = st\<rparr>]) =
     Some \<lparr>call_id = i, call_change = c, call_stage = st\<rparr>"
  unfolding find_call_def by (induction calls) (auto split: if_splits)

lemma find_call_None_fresh: "find_call i calls = None \<Longrightarrow> \<forall>c \<in> set calls. call_id c \<noteq> i"
  unfolding find_call_def by (induction calls) (auto split: if_splits)

lemma set_stage_append_new:
  "find_call i calls = None \<Longrightarrow>
   set_stage i st' (calls @ [\<lparr>call_id = i, call_change = c, call_stage = st\<rparr>]) =
     calls @ [\<lparr>call_id = i, call_change = c, call_stage = st'\<rparr>]"
  using find_call_None_fresh[of i calls] by (simp add: set_stage_def map_idI)

lemma drop_call_append_new:
  "find_call i calls = None \<Longrightarrow>
   drop_call i (calls @ [\<lparr>call_id = i, call_change = c, call_stage = st\<rparr>]) = calls"
  using find_call_None_fresh[of i calls] by (simp add: drop_call_def filter_id_conv)

lemma sequential_call:
  assumes "find_call i (sys_calls y) = None"
  shows "run_system y [IgnoredCheck i change, DuplicateCheck i, FinalStatement i now] =
         y\<lparr>sys_db := snd (insertChange change now (sys_db y)),
           sys_returned := sys_returned y @ [(i, fst (insertChange change now (sys_db y)))]\<rparr>"
  using assms
  by (cases "duplicateCheck (sys_db y) change")
     (simp_all add: run_system_def insertChange_def find_call_append_new set_stage_append_new
        drop_call_append_new)

lemma find_txn_None_fresh: "find_txn t txns = None \<Longrightarrow> \<forall>x \<in> set txns. txn_id x \<noteq> t"
  unfolding find_txn_def by (induction txns) (auto split: if_splits)

lemma find_txn_append_new:
  "find_txn t txns = None \<Longrightarrow> txn_id x = t \<Longrightarrow> find_txn t (txns @ [x]) = Some x"
  unfolding find_txn_def by (induction txns) (auto split: if_splits)

lemma drop_txn_append_new:
  "find_txn t txns = None \<Longrightarrow> txn_id x = t \<Longrightarrow> drop_txn t (txns @ [x]) = txns"
  using find_txn_None_fresh[of t txns] by (simp add: drop_txn_def filter_id_conv)

lemma commit_open_txn: "commit_txn (open_txn t d now db) db = snd (addIgnoredUser d now db)"
proof -
  have "filter (\<lambda>r. \<not> (pc_did r = d \<and>
            pc_id r \<in> set (map pc_id (filter (\<lambda>r. pc_did r = d) (profile_changes db)))))
          (profile_changes db) =
        filter (\<lambda>r. pc_did r \<noteq> d) (profile_changes db)"
    by (rule filter_cong) auto
  then show ?thesis by (simp add: commit_txn_def open_txn_def addIgnoredUser_def)
qed

lemma sequential_transaction:
  assumes "find_txn t (sys_txns y) = None"
  shows "run_system y [AddIgnoredUserDelete t d now, AddIgnoredUserCommit t] =
         y\<lparr>sys_db := snd (addIgnoredUser d now (sys_db y))\<rparr>"
  using assms
  by (simp add: run_system_def find_txn_append_new drop_txn_append_new commit_open_txn
      open_txn_def[of t d now, THEN arg_cong, of txn_id])







subsection \<open>The change type\<close>

lemma non_empty_truthy: "non_empty x = truthy_field x"
  by (cases x rule: non_empty.cases) simp_all

lemma given_defined: "given x = (x \<noteq> Undefined)"
  by (cases x) simp_all

lemma getChangeType_spec: "getChangeType change = spec_change_type change"
  by (simp add: getChangeType_def spec_change_type_def handle_transition_def
      profile_transition_def non_empty_truthy given_defined)

text \<open>For a request that carries no explicit null the two readings agree.\<close>

lemma typed_has_value: "x \<noteq> Null \<Longrightarrow> has_value x = given x"
  by (cases x) simp_all

lemma getChangeType_stated:
  "typed_request change \<Longrightarrow> getChangeType change = stated_change_type change"
  by (simp add: getChangeType_spec spec_change_type_def stated_change_type_def
      profile_transition_def stated_profile_transition_def typed_request_def typed_has_value)





section \<open>Properties of the options message\<close>

text \<open>
  Claim C5, as amended. The message of the main stream lists the first 10 000 of the DIDs
  it is given, so at most 10 000, and a warning is printed exactly when more were given.
  The message of a temporary stream lists every DID it is given, whatever their number.
\<close>

theorem options_message_cap:
  "wantedDids (payload (fst (buildOptionsUpdateMessage dids))) = take 10000 dids \<and>
   length (wantedDids (payload (fst (buildOptionsUpdateMessage dids)))) \<le> 10000 \<and>
   snd (buildOptionsUpdateMessage dids) =
     (if length dids > 10000 then [DidLimitWarning (length dids) 10000] else []) \<and>
   wantedDids (payload (temp_buildOptionsUpdateMessage dids)) = dids"
  by (simp add: buildOptionsUpdateMessage_def temp_buildOptionsUpdateMessage_def
      MAX_WANTED_DIDS_def Let_def min_def)

text \<open>
  Claim C5 as stated fails for the temporary streams: given 10 001 DIDs, their message
  lists all 10 001.
\<close>

theorem temp_options_uncapped_counterexample:
  "length (wantedDids (payload (temp_buildOptionsUpdateMessage (many_dids 10001)))) = 10001 \<and>
   MAX_WANTED_DIDS = 10000"
  by (simp add: temp_buildOptionsUpdateMessage_def many_dids_def MAX_WANTED_DIDS_def)

text \<open>The message the main stream sends on open is the capped one.\<close>

lemma ws_on_open_sends_capped:
  "ws s = Some sock \<Longrightarrow>
   map_option sent (ws (ws_on_open s)) =
     Some (sent sock @ [fst (buildOptionsUpdateMessage (currentDIDs s))])"
  by (simp add: ws_on_open_def Let_def)

section \<open>Properties of the main stream\<close>

lemmas example_service_defs = connected_service_def ws_on_open_def start_def reloadDIDs_def
  connect_def new_JetstreamService_def empty_db_def getAllMonitoredDIDs_def
  getMonitoringUsers_def getIgnoredUsers_def example_world_def

lemma connected_service_eval:
  "connected_service =
     \<lparr>ws = Some \<lparr>ws_host = ''jetstream1.example'', ws_cursor = Some 1700000000000000,
                  readyState = OPEN,
                  sent = [fst (buildOptionsUpdateMessage [''did:plc:u'', ''did:plc:a''])]\<rparr>,
      reconnectAttempts = 0, shouldRun = True, reconnectTimeout = None,
      currentDIDs = [''did:plc:u'', ''did:plc:a''],
      lastCursor = Some 1700000000000000, startTime = Some 1700000060000,
      isInActualBackfill = False, actualBackfillLagSeconds = None,
      lastHost = Some ''jetstream1.example'', stoppedAt = None, cursorAtStop = None\<rparr>"
  by (simp add: example_service_defs Let_def)

text \<open>
  Claim C4, as amended. When \<open>start\<close> is given a cursor (other than 0), the service is in
  backfill mode afterwards exactly if the cursor is more than 60 s old: \<open>now - cursor / 1000\<close>
  is greater than 60 000 ms. At exactly 60 s it is not.
\<close>

theorem start_backfill_strict:
  assumes "cursor \<noteq> 0"
  shows "isInActualBackfill (start (Some cursor) now db_ok db host ctor_ok s) =
           (real_of_int now - real_of_int cursor / 1000 > 60000)"
  using assms
  by (simp add: start_def reloadDIDs_def connect_def Let_def split: option.splits)

text \<open>One millisecond past the boundary the service is in backfill mode.\<close>

theorem start_backfill_strict_witness:
  "(1700000000000000::int) \<noteq> 0 \<and>
   isInActualBackfill
     (start (Some 1700000000000000) 1700000060001 True (fw_db example_world)
        ''jetstream1.example'' True new_JetstreamService) = True"
  using start_backfill_strict[of 1700000000000000 1700000060001 True "fw_db example_world"
      "''jetstream1.example''" True new_JetstreamService]
  by simp

text \<open>
  Claim C4 as stated fails: with a cursor exactly 60 s in the past, \<open>start\<close> leaves
  \<open>isInActualBackfill\<close> false.
\<close>

theorem start_at_60s_counterexample:
  "isInActualBackfill
     (start (Some 1700000000000000) 1700000060000 True (fw_db example_world)
        ''jetstream1.example'' True new_JetstreamService) = False \<and>
   (1700000060000 - 1700000000000000 / 1000 :: real) = 60000"
  by (simp add: example_service_defs Let_def)

text \<open>The close handler changes nothing that the status snapshot reads.\<close>

lemma status_after_close: "getMainStreamStatus (ws_on_close s) now = getMainStreamStatus s now"
  by (simp add: getMainStreamStatus_def ws_on_close_def isRunningWithCursor_def
      mark_closed_def Let_def split: option.splits)

text \<open>
  Claim C9, on the code: a running main stream (not stopped, two DIDs, a cursor, started
  40 s ago) whose socket closes still reports \<open>isRunning\<close> and \<open>hasValidCursor\<close> as true,
  because the close handler keeps the reference to the closed socket.
\<close>

theorem disconnect_status_still_running:
  "getMainStreamStatus (ws_on_close connected_service) 1700000100000 =
     \<lparr>isRunning = True, monitoredDIDs = 2, hasValidCursor = True\<rparr> \<and>
   shouldRun connected_service \<and>
   map_option readyState (ws (ws_on_close connected_service)) = Some CLOSED"
  by (simp add: connected_service_eval getMainStreamStatus_def ws_on_close_def mark_closed_def
      isRunningWithCursor_def Let_def)

section \<open>Properties of event processing\<close>

subsection \<open>The retry wrapper\<close>

lemma withDBRetry_from_preserves:
  "(\<forall>x. P x \<longrightarrow> P (snd (oper x))) \<Longrightarrow> P x \<Longrightarrow> P (snd (withDBRetry_from n oper x))"
proof (induction n oper x rule: withDBRetry_from.induct)
  case (1 attempt oper w)
  obtain r w' where ow: "oper w = (r, w')" by (cases "oper w")
  have "P (snd (oper w))" using "1.prems" by blast
  then have pw': "P w'" using ow by simp
  show ?case
  proof (cases r)
    case (Inr v)
    then show ?thesis using ow pw' by (subst withDBRetry_from.simps) simp
  next
    case (Inl err)
    show ?thesis
    proof (cases "attempt + 1 \<ge> DB_RETRY_ATTEMPTS")
      case True
      then show ?thesis using ow pw' Inl by (subst withDBRetry_from.simps) simp
    next
      case False
      have "P (snd (withDBRetry_from (attempt + 1) oper w'))"
        using "1.IH" ow Inl False pw' "1.prems"(1) by auto
      then show ?thesis using ow Inl False by (subst withDBRetry_from.simps) simp
    qed
  qed
qed

lemma withDBRetry_preserves:
  "(\<forall>x. P x \<longrightarrow> P (snd (oper x))) \<Longrightarrow> P x \<Longrightarrow> P (snd (withDBRetry oper x))"
  unfolding withDBRetry_def by (rule withDBRetry_from_preserves)

lemma withDBRetry_succeeds: "oper w = (Inr v, w') \<Longrightarrow> withDBRetry oper w = (Inr v, w')"
  unfolding withDBRetry_def by (subst withDBRetry_from.simps) simp

text \<open>An operation that fails on every attempt is given up after the third.\<close>

lemma withDBRetry_always_fails:
  assumes "\<And>x. oper x = (Inl e, x)"
  shows "withDBRetry oper w = (Inl e, w)"
  unfolding withDBRetry_def
  apply (subst withDBRetry_from.simps)
  apply (subst withDBRetry_from.simps)
  apply (subst withDBRetry_from.simps)
  apply (simp add: assms DB_RETRY_ATTEMPTS_def)
  done

subsection \<open>Where the cursor is assigned\<close>

lemma on_world_fst: "fst (snd (on_world f sw)) = fst sw"
  by (simp add: on_world_def split: prod.splits)

lemma retry_on_world_cursor:
  "lastCursor (fst (snd (withDBRetry (on_world f) sw))) = lastCursor (fst sw)"
proof -
  have "(\<lambda>x. lastCursor (fst x) = lastCursor (fst sw)) (snd (withDBRetry (on_world f) sw))"
    by (rule withDBRetry_preserves) (simp_all add: on_world_fst)
  then show ?thesis by simp
qed

lemma retry_follow_cursor:
  assumes "keeps_cursor h"
  shows "lastCursor (fst (snd (withDBRetry (\<lambda>x. dep_handleFollowEvent h ev p (g x) x) sw))) =
         lastCursor (fst sw)"
proof -
  have k: "\<And>b x. lastCursor (fst (snd (dep_handleFollowEvent h ev p b x))) = lastCursor (fst x)"
    using assms unfolding keeps_cursor_def by (metis prod.collapse)
  have "(\<lambda>x. lastCursor (fst x) = lastCursor (fst sw))
          (snd (withDBRetry (\<lambda>x. dep_handleFollowEvent h ev p (g x) x) sw))"
    by (rule withDBRetry_preserves) (simp_all add: k)
  then show ?thesis by simp
qed

lemma lastCursor_advance_cursor: "lastCursor (advance_cursor c s) = Some c"
  by (simp add: advance_cursor_def Let_def split: option.splits)

lemma processEvent_cursor_cases:
  assumes k: "keeps_cursor h"
  shows "lastCursor (fst (processEvent h ev sw)) = lastCursor (fst sw) \<or>
         lastCursor (fst (processEvent h ev sw)) = Some (time_us ev)"
proof -
  note f = retry_follow_cursor[OF k, of ev None "\<lambda>x. isInActualBackfill (fst x)"]
  show ?thesis
    unfolding processEvent_def Let_def
    by (auto simp: lastCursor_advance_cursor retry_on_world_cursor f
        split: prod.splits sum.splits if_splits
        dest!: arg_cong[where f="\<lambda>x. lastCursor (fst (snd x))"])
qed

text \<open>
  The main stream: an identity event whose handler still fails after its retries leaves
  the cursor where it was; one whose handler succeeds moves it to the event's time.
\<close>

lemma main_identity_failure_keeps_cursor:
  assumes "kind ev = ''identity''"
    and "fst (withDBRetry (on_world (dep_handleIdentityEvent h ev None)) sw) = Inl e"
  shows "lastCursor (fst (processEvent h ev sw)) = lastCursor (fst sw)"
proof -
  obtain r sw1 where w: "withDBRetry (on_world (dep_handleIdentityEvent h ev None)) sw = (r, sw1)"
    by (cases "withDBRetry (on_world (dep_handleIdentityEvent h ev None)) sw")
  have "lastCursor (fst sw1) = lastCursor (fst sw)"
    using retry_on_world_cursor[of "dep_handleIdentityEvent h ev None" sw] w by simp
  then show ?thesis using assms w by (simp add: processEvent_def Let_def)
qed

lemma main_identity_success_advances:
  assumes "kind ev = ''identity''"
    and "fst (withDBRetry (on_world (dep_handleIdentityEvent h ev None)) sw) = Inr u"
  shows "lastCursor (fst (processEvent h ev sw)) = Some (time_us ev)"
proof -
  obtain r sw1 where w: "withDBRetry (on_world (dep_handleIdentityEvent h ev None)) sw = (r, sw1)"
    by (cases "withDBRetry (on_world (dep_handleIdentityEvent h ev None)) sw")
  show ?thesis using assms w
    by (simp add: processEvent_def Let_def lastCursor_advance_cursor)
qed

text \<open>A temporary stream assigns its cursor before any handler runs.\<close>

lemma temp_processEvent_cursor:
  "t_lastCursor (fst (temp_processEvent deps ev tsw)) =
     (if time_us ev \<noteq> 0 then Some (time_us ev) else t_lastCursor (fst tsw))"
  unfolding temp_processEvent_def Let_def
  by (simp add: temp_stop_def Let_def split: prod.splits sum.splits)

lemma example_temp_stream_eval:
  "example_temp_stream =
     \<lparr>t_userDID = ''did:plc:u'', t_userHandle = None, t_follows = [''did:plc:a''],
      t_startTime = 1700000100000,
      t_ws = Some \<lparr>ws_host = ''jetstream1.example'', ws_cursor = Some 1699913700000000,
                    readyState = CONNECTING, sent = []\<rparr>,
      t_reconnectAttempts = 0, t_reconnectTimeout = None, t_shouldRun = True,
      t_lastCursor = None, t_initialCursor = Some 1699913700000000,
      t_lastHost = Some ''jetstream1.example'', t_hasStopped = False\<rparr>"
  by (simp add: example_temp_stream_def temp_start_def temp_connect_def
      new_TemporaryJetstreamService_def getCursor24hAgo_def LOOKBACK_MS_24H_def Let_def)

lemma failing_identity:
  "withDBRetry (on_world (dep_handleIdentityEvent failing_handlers ev p)) sw =
     (Inl (Error ''connection refused''), sw)"
  by (rule withDBRetry_always_fails) (auto simp: on_world_def failing_handlers_def)

lemma succeeding_identity:
  "withDBRetry (on_world (dep_handleIdentityEvent succeeding_handlers ev p)) sw = (Inr (), sw)"
  by (rule withDBRetry_succeeds) (cases sw, simp add: on_world_def succeeding_handlers_def)

lemma processEvent_succeeding_identity:
  "kind ev = ''identity'' \<Longrightarrow>
   processEvent succeeding_handlers ev sw = (advance_cursor (time_us ev) (fst sw), snd sw)"
  by (simp add: processEvent_def Let_def succeeding_identity)

text \<open>
  Claim C1, on the code: an identity event reaches a temporary stream while the database
  cannot be reached. The handler fails on all three attempts, and the stream's cursor has
  nevertheless moved from null to the event's time; the main stream, given the same event
  and the same failure, keeps its cursor.
\<close>

theorem temp_cursor_advances_despite_failure:
  "fst (withDBRetry (on_world (dep_handleIdentityEvent failing_handlers example_identity_event
          (Some (logPrefix example_temp_stream)))) (connected_service, ())) =
     Inl (Error ''connection refused'') \<and>
   t_lastCursor example_temp_stream = None \<and>
   t_lastCursor (fst (temp_processEvent failing_handlers example_identity_event
                        (example_temp_stream, connected_service, ()))) =
     Some 1700000050000000 \<and>
   lastCursor (fst (processEvent failing_handlers example_identity_event (connected_service, ()))) =
     lastCursor connected_service"
  by (simp add: failing_identity temp_processEvent_def processEvent_def Let_def
      example_temp_stream_eval example_identity_event_def)


subsection \<open>Calls that do not overlap\<close>

lemma drop_task_0 [simp]: "drop_task 0 (x # xs) = xs"
  by (simp add: drop_task_def)

text \<open>
  A run of the event loop in which the call for an event is over before anything else
  happens is \<open>processEvent\<close>, for either stream.
\<close>

lemma one_at_a_time_processEvent:
  assumes "ml_tasks y = []"
  shows "run_loop h y (one_at_a_time event) =
     \<lparr>ml_state = processEvent h event (ml_state y), ml_tasks = []\<rparr>"
proof -
  obtain sw where y: "y = \<lparr>ml_state = sw, ml_tasks = []\<rparr>"
    using assms by (cases y) simp
  consider (identity) "kind event = ''identity''" | (commit) "kind event = ''commit''"
    | (other) "kind event \<noteq> ''identity''" "kind event \<noteq> ''commit''"
    by blast
  then show ?thesis
  proof cases
    case identity
    obtain r sw1 where w: "withDBRetry (on_world (dep_handleIdentityEvent h event None)) sw = (r, sw1)"
      by (cases "withDBRetry (on_world (dep_handleIdentityEvent h event None)) sw")
    show ?thesis
      by (cases r) (simp_all add: y run_loop_def one_at_a_time_def processEvent_def identity w)
  next
    case commit
    obtain r sw2 where w: "withDBRetry (on_world (dep_handleProfileCommit h event None)) sw = (r, sw2)"
      by (cases "withDBRetry (on_world (dep_handleProfileCommit h event None)) sw")
    obtain r' sw3 where w': "withDBRetry (\<lambda>x. dep_handleFollowEvent h event None
                                (isInActualBackfill (fst x)) x) sw2 = (r', sw3)"
      by (cases "withDBRetry (\<lambda>x. dep_handleFollowEvent h event None
                                (isInActualBackfill (fst x)) x) sw2")
    show ?thesis
      by (cases r; cases r')
         (simp_all add: y run_loop_def one_at_a_time_def processEvent_def commit w w')
  next
    case other
    then show ?thesis
      by (simp add: y run_loop_def one_at_a_time_def processEvent_def)
  qed
qed

lemma one_at_a_time_temp_processEvent:
  assumes "tl_tasks y = []"
  shows "run_temp_loop deps y (one_at_a_time event) =
     \<lparr>tl_state = temp_processEvent deps event (tl_state y), tl_tasks = []\<rparr>"
proof -
  obtain t sw where y: "y = \<lparr>tl_state = (t, sw), tl_tasks = []\<rparr>"
    using assms by (cases y) auto
  define p where "p = Some (logPrefix t)"
  show ?thesis
  proof (cases "time_us event \<noteq> 0 \<and>
            real_of_int (t_startTime t) * 1000 \<le> real_of_int (time_us event)")
    case True
    then show ?thesis
      by (simp add: y run_temp_loop_def one_at_a_time_def temp_processEvent_def Let_def)
  next
    case False
    consider (identity) "kind event = ''identity''" | (commit) "kind event = ''commit''"
      | (other) "kind event \<noteq> ''identity''" "kind event \<noteq> ''commit''"
      by blast
    then show ?thesis
    proof cases
      case identity
      obtain r sw1 where w: "withDBRetry (on_world (dep_handleIdentityEvent deps event p)) sw = (r, sw1)"
        by (cases "withDBRetry (on_world (dep_handleIdentityEvent deps event p)) sw")
      show ?thesis using False w
        by (cases r)
           (simp_all add: y run_temp_loop_def one_at_a_time_def temp_processEvent_def
              identity p_def Let_def)
    next
      case commit
      obtain r sw2 where w: "withDBRetry (on_world (dep_handleProfileCommit deps event p)) sw = (r, sw2)"
        by (cases "withDBRetry (on_world (dep_handleProfileCommit deps event p)) sw")
      obtain r' sw3 where w': "withDBRetry (dep_handleFollowEvent deps event p False) sw2 = (r', sw3)"
        by (cases "withDBRetry (dep_handleFollowEvent deps event p False) sw2")
      show ?thesis using False w w'
        by (cases r)
           (simp_all add: y run_temp_loop_def one_at_a_time_def temp_processEvent_def
              commit p_def Let_def)
    next
      case other
      then show ?thesis using False
        by (simp add: y run_temp_loop_def one_at_a_time_def temp_processEvent_def Let_def)
    qed
  qed
qed

subsection \<open>Order of the cursor values\<close>
















section \<open>Properties of the follow handler\<close>

lemma reloadDIDs_lastCursor: "lastCursor (reloadDIDs ok db s) = lastCursor s"
  by (simp add: reloadDIDs_def Let_def split: option.splits)

text \<open>The follow handler of the source never assigns the cursor of the main service.\<close>

lemma handleFollowEvent_keeps_cursor:
  "keeps_cursor \<lparr>dep_handleIdentityEvent = hi, dep_handleProfileCommit = hp,
                 dep_handleFollowEvent = handleFollowEvent resolveHandle db_ok now\<rparr>"
  unfolding keeps_cursor_def
  by (auto simp: handleFollowEvent_def follow_create_def follow_delete_def reloadDIDsNow_def
      reloadDIDs_lastCursor Let_def split: option.splits)

text \<open>
  Claim C10. For a follow-create commit whose subject the resolver cannot resolve, the
  handler leaves the main service and the tables as they were and does not call
  \<open>reloadDIDsNow\<close>: the state after the call is the state before it, or that state with
  the one warning added to the log. The warning is printed when the handler gets as far as
  the subject: the follower has monitoring enabled (and the query for that succeeds), the
  event is not suppressed by backfill mode, and the subject is not the empty string.
\<close>

theorem unresolved_follow_is_dropped:
  assumes "kind event = ''commit''"
    and "commit event = Some c"
    and "collection c = ''app.bsky.graph.follow''"
    and "operation c = ''create''"
    and "c_record c = Some r"
    and "subject r = Some followedDID"
    and "resolveHandle followedDID = None"
  shows "(snd (handleFollowEvent resolveHandle db_ok now event prefix isInBackfill (s, w)) = (s, w) \<or>
          snd (handleFollowEvent resolveHandle db_ok now event prefix isInBackfill (s, w)) =
            (s, w\<lparr>fw_log := fw_log w @ [WarnCouldNotResolve followedDID]\<rparr>)) \<and>
         (db_ok 0 \<and> hasMonitoringEnabled (fw_db w) (ev_did event) \<and>
          \<not> (isInBackfill \<and> \<not> truthy prefix) \<and> followedDID \<noteq> [] \<longrightarrow>
            handleFollowEvent resolveHandle db_ok now event prefix isInBackfill (s, w) =
              (Inr (), (s, w\<lparr>fw_log := fw_log w @ [WarnCouldNotResolve followedDID]\<rparr>)))"
  using assms
  by (auto simp: handleFollowEvent_def follow_create_def Let_def)

text \<open>
  Scenario S4 with a subject that does not resolve: the event is answered with the
  warning alone.
\<close>

theorem unresolved_follow_is_dropped_witness:
  "kind example_follow_event = ''commit'' \<and>
   hasMonitoringEnabled (fw_db example_world) (ev_did example_follow_event) \<and>
   handleFollowEvent (\<lambda>d. None) (\<lambda>k. True) 5 example_follow_event None False
       (connected_service, example_world) =
     (Inr (), (connected_service,
               example_world\<lparr>fw_log := [WarnCouldNotResolve ''did:plc:c'']\<rparr>))"
proof -
  have k: "kind example_follow_event = ''commit''"
    by (simp add: example_follow_event_def)
  have c: "commit example_follow_event =
      Some \<lparr>operation = ''create'', collection = ''app.bsky.graph.follow'',
             c_rkey = Some ''k1'',
             c_record = Some \<lparr>displayName = None, avatar_ref_link = None,
                               subject = Some ''did:plc:c''\<rparr>\<rparr>"
    by (simp add: example_follow_event_def)
  have m: "hasMonitoringEnabled (fw_db example_world) (ev_did example_follow_event)"
    by (simp add: hasMonitoringEnabled_def example_world_def example_follow_event_def
        empty_db_def)
  have l: "fw_log example_world = []" by (simp add: example_world_def)
  from unresolved_follow_is_dropped[OF k c, where resolveHandle="\<lambda>d. None"
      and db_ok="\<lambda>k. True" and now=5 and prefix=None and isInBackfill=False
      and s=connected_service and w=example_world and followedDID="''did:plc:c''"] m l k
  show ?thesis by simp
qed


section \<open>Properties of the pool of temporary streams\<close>

subsection \<open>The number of active streams never exceeds the maximum\<close>

lemma map_set_has_length: "map_has k m \<Longrightarrow> length (map_set k v m) = length m"
  by (simp add: map_set_def)

lemma map_set_length_le: "length (map_set k v m) \<le> Suc (length m)"
  by (simp add: map_set_def)

lemma map_set_keys: "map_has k m \<Longrightarrow> map fst (map_set k v m) = map fst m"
  by (induction m) (auto simp: map_set_def map_has_def)

lemma map_has_map_set: "map_has k (map_set k v m)"
proof (cases "map_has k m")
  case True
  then show ?thesis using map_set_keys[OF True, of v] by (simp add: map_has_def)
next
  case False
  then show ?thesis by (simp add: map_set_def map_has_def)
qed

lemma map_delete_length_le: "length (map_delete k m) \<le> length m"
  by (simp add: map_delete_def)

lemma map_get_has: "map_get k m = Some v \<Longrightarrow> map_has k m"
  by (auto simp: map_get_def map_has_def dest: map_of_SomeD intro: rev_image_eqI)

lemma startStreamForUser_size:
  "map_size (activeStreams (snd (startStreamForUser env u fs m))) \<le>
   Suc (map_size (activeStreams m))"
proof -
  have a: "length (map_set u v2 (map_set u v1 xs)) \<le> Suc (length xs)" for v1 v2 xs
    using map_set_has_length[OF map_has_map_set, of u v2 v1 xs] map_set_length_le[of u v1 xs]
    by simp
  have b: "length (map_delete u (map_set u v1 xs)) \<le> Suc (length xs)" for v1 xs
    using map_delete_length_le[of u "map_set u v1 xs"] map_set_length_le[of u v1 xs] by simp
  show ?thesis
    by (simp add: startStreamForUser_def map_size_def Let_def a b map_set_length_le
        split: option.splits)
qed

lemma processQueue_bounded:
  assumes le: "map_size (activeStreams m) \<le> mx"
  shows "map_size (activeStreams (processQueue mx env m)) \<le> mx"
proof (cases "queue m")
  case Nil
  then show ?thesis using le by (simp add: processQueue_def)
next
  case (Cons nxt rest)
  show ?thesis
  proof (cases "map_size (activeStreams m) \<ge> mx")
    case True
    then show ?thesis using Cons le by (simp add: processQueue_def)
  next
    case False
    have "map_size (activeStreams (snd (startStreamForUser env (q_userDID nxt) (q_follows nxt)
                                           (m\<lparr>queue := rest\<rparr>))))
          \<le> Suc (map_size (activeStreams m))"
      using startStreamForUser_size[of env "q_userDID nxt" "q_follows nxt" "m\<lparr>queue := rest\<rparr>"]
      by simp
    then show ?thesis using Cons False by (simp add: processQueue_def)
  qed
qed

lemma finalizeStream_bounded:
  assumes le: "map_size (activeStreams m) \<le> mx"
  shows "map_size (activeStreams (finalizeStream mx env u m)) \<le> mx"
proof (cases "map_get u (activeStreams m)")
  case None
  then show ?thesis using le by (simp add: finalizeStream_def)
next
  case (Some service)
  have "map_size (activeStreams (m\<lparr>activeStreams := map_delete u (activeStreams m)\<rparr>)) \<le> mx"
    using le map_delete_length_le[of u "activeStreams m"] by (simp add: map_size_def)
  then show ?thesis using Some by (simp add: finalizeStream_def processQueue_bounded)
qed

lemma stopForUser_bounded:
  assumes le: "map_size (activeStreams m) \<le> mx"
  shows "map_size (activeStreams (stopForUser mx env u m)) \<le> mx"
proof (cases "map_get u (activeStreams m)")
  case None
  then show ?thesis using le by (simp add: stopForUser_def)
next
  case (Some service)
  obtain service' b where ts: "temp_stop service = (service', b)"
    by (cases "temp_stop service")
  have "map_size (activeStreams (m\<lparr>activeStreams := map_set u service' (activeStreams m)\<rparr>)) \<le> mx"
    using le map_set_has_length[OF map_get_has[OF Some]] by (simp add: map_size_def)
  then show ?thesis using Some ts
    by (cases b) (simp_all add: stopForUser_def finalizeStream_bounded)
qed

lemma startForUser_bounded:
  "map_size (activeStreams m) \<le> mx \<Longrightarrow>
   map_size (activeStreams (snd (startForUser mx env u fs m))) \<le> mx"
  using startStreamForUser_size[of env u fs m]
  by (auto simp: startForUser_def split: prod.splits sum.splits)

lemma manager_step_bounded:
  "map_size (activeStreams m) \<le> mx \<Longrightarrow>
   map_size (activeStreams (manager_step mx m op)) \<le> mx"
  by (cases op) (simp_all add: startForUser_bounded stopForUser_bounded stream_caught_up_def)

text \<open>
  The first half of claim C6 holds after every run of manager operations: at most
  \<open>mx\<close> streams are active.
\<close>

lemma active_streams_bounded: "map_size (activeStreams (run_manager mx ops)) \<le> mx"
proof -
  have "map_size (activeStreams m) \<le> mx \<Longrightarrow>
        map_size (activeStreams (foldl (manager_step mx) m ops)) \<le> mx" for m
    by (induction ops arbitrary: m) (simp_all add: manager_step_bounded)
  then show ?thesis
    by (simp add: run_manager_def new_TemporaryJetstreamManager_def map_size_def)
qed

subsection \<open>A queue that waits below capacity\<close>

lemma pool_user_inj: "pool_user a = pool_user b \<longleftrightarrow> a = b"
proof
  assume "pool_user a = pool_user b"
  then have "length (pool_user a) = length (pool_user b)" by simp
  then show "a = b" by (simp add: pool_user_def)
qed simp

lemma pool_user_not_queued: "pool_user k \<noteq> ''did:plc:q1''" "pool_user k \<noteq> ''did:plc:q2''"
  by (simp_all add: pool_user_def)

lemma map_has_pool:
  "map_has u (pool_entries i j) \<longleftrightarrow> (\<exists>k. i \<le> k \<and> k < j \<and> u = pool_user k)"
  by (auto simp: map_has_def pool_entries_def image_iff)

lemma replace_fresh: "\<not> map_has k m \<Longrightarrow> map (\<lambda>e. if fst e = k then (k, v) else e) m = m"
  by (induction m) (auto simp: map_has_def)

lemma map_set_twice_fresh: "\<not> map_has k m \<Longrightarrow> map_set k v (map_set k v0 m) = m @ [(k, v)]"
  by (simp add: map_set_def map_has_def replace_fresh[unfolded map_has_def])

lemma map_delete_fresh: "\<not> map_has k m \<Longrightarrow> map_delete k m = m"
  by (induction m) (auto simp: map_has_def map_delete_def)

lemma pool_entries_snoc:
  "i \<le> j \<Longrightarrow> pool_entries i (Suc j) = pool_entries i j @ [(pool_user j, pool_service j)]"
  by (simp add: pool_entries_def)

lemma pool_entries_Cons:
  "i < j \<Longrightarrow> pool_entries i j = (pool_user i, pool_service i) # pool_entries (Suc i) j"
  by (simp add: pool_entries_def upt_conv_Cons)

lemma pool_size: "map_size (pool_entries i j) = j - i"
  by (simp add: map_size_def pool_entries_def)

lemma start_pool_user:
  assumes "n < 50"
  shows "snd (startForUser 50 env_ok (pool_user n) [''did:plc:follow'']
            \<lparr>activeStreams = pool_entries 0 n, queue = []\<rparr>) =
         \<lparr>activeStreams = pool_entries 0 (Suc n), queue = []\<rparr>"
proof -
  have nh: "\<not> map_has (pool_user n) (pool_entries 0 n)"
    by (simp add: map_has_pool pool_user_inj)
  show ?thesis using assms nh
    by (simp add: startForUser_def startStreamForUser_def Let_def env_ok_def pool_size
        map_set_twice_fresh pool_entries_snoc pool_service_def)
qed

lemma fill_prefix:
  "n \<le> 50 \<Longrightarrow>
   foldl (manager_step 50) new_TemporaryJetstreamManager
     (map (\<lambda>k. StartForUser env_ok (pool_user k) [''did:plc:follow'']) [0..<n]) =
   \<lparr>activeStreams = pool_entries 0 n, queue = []\<rparr>"
proof (induction n)
  case 0
  then show ?case by (simp add: new_TemporaryJetstreamManager_def pool_entries_def)
next
  case (Suc n)
  then have "n < 50" by simp
  then show ?case using Suc by (simp add: start_pool_user)
qed

lemma pool_filled:
  "foldl (manager_step 50) new_TemporaryJetstreamManager fill_pool =
   \<lparr>activeStreams = pool_entries 0 50, queue = []\<rparr>"
  unfolding fill_pool_def by (rule fill_prefix) simp

lemma queue_at_capacity:
  assumes "\<not> map_has u (pool_entries 0 50)"
  shows "snd (startForUser 50 env u fs \<lparr>activeStreams = pool_entries 0 50, queue = q\<rparr>) =
         \<lparr>activeStreams = pool_entries 0 50,
          queue = q @ [\<lparr>q_userDID = u, q_follows = fs\<rparr>]\<rparr>"
  using assms by (simp add: startForUser_def pool_size)

lemma stop_first_pool_user:
  "stopForUser 50 (env_ok\<lparr>env_ignored := Some [''did:plc:g'']\<rparr>) (pool_user 0)
     \<lparr>activeStreams = pool_entries 0 50,
      queue = [\<lparr>q_userDID = ''did:plc:q1'', q_follows = [''did:plc:g'']\<rparr>,
               \<lparr>q_userDID = ''did:plc:q2'', q_follows = [''did:plc:h'']\<rparr>]\<rparr> =
   \<lparr>activeStreams = pool_entries (Suc 0) 50,
    queue = [\<lparr>q_userDID = ''did:plc:q2'', q_follows = [''did:plc:h'']\<rparr>]\<rparr>"
proof -
  have c: "pool_entries 0 50 = (pool_user 0, pool_service 0) # pool_entries (Suc 0) 50"
    using pool_entries_Cons[of 0 50] by simp
  have nh: "\<not> map_has (pool_user 0) (pool_entries (Suc 0) 50)"
    by (simp add: map_has_pool pool_user_inj)
  have ts: "temp_stop (pool_service 0) =
      ((pool_service 0)\<lparr>t_shouldRun := False, t_reconnectTimeout := None,
         t_reconnectAttempts := 0, t_ws := None, t_hasStopped := True\<rparr>, True)"
    by (simp add: temp_stop_def pool_service_def temp_start_def temp_connect_def Let_def)
  show ?thesis
    by (simp add: stopForUser_def c ts finalizeStream_def processQueue_def
        startStreamForUser_def map_get_def map_set_def map_has_def map_delete_def
        replace_fresh[OF nh] map_delete_fresh[OF nh, unfolded map_delete_def]
        pool_size env_ok_def Let_def)
qed

text \<open>
  Claim C6, on the code: 50 users start their streams, two more requests are queued, the
  only follow of the first queued user is put on the ignore list, and one stream is
  stopped. The promoted request opens no stream and \<open>processQueue\<close> promotes no second one:
  the run ends with a request in the queue and 49 of 50 streams active.
\<close>

theorem queue_waits_below_capacity:
  "map_size (activeStreams (run_manager 50 stalled_queue_run)) = 49 \<and>
   map q_userDID (queue (run_manager 50 stalled_queue_run)) = [''did:plc:q2''] \<and>
   map_size (activeStreams (run_manager 50 stalled_queue_run)) < 50"
proof -
  have n1: "\<not> map_has ''did:plc:q1'' (pool_entries 0 50)"
    and n2: "\<not> map_has ''did:plc:q2'' (pool_entries 0 50)"
    using pool_user_not_queued by (metis map_has_pool)+
  have "run_manager 50 stalled_queue_run =
    \<lparr>activeStreams = pool_entries (Suc 0) 50,
     queue = [\<lparr>q_userDID = ''did:plc:q2'', q_follows = [''did:plc:h'']\<rparr>]\<rparr>"
    by (simp add: run_manager_def stalled_queue_run_def pool_filled
        queue_at_capacity[OF n1] queue_at_capacity[OF n2] stop_first_pool_user)
  then show ?thesis by (simp add: pool_size)
qed

end
